theory Spec2Isabelle
  imports
    Complex_Main
    "HOL-Library.AList"
    "HOL-Library.Char_ord"
    "HOL-Library.List_Lexorder"
    "HOL-Library.Product_Lexorder"
    "HOL-Library.Option_ord"
begin

section \<open>Documents\<close>

text \<open>
  The service in \<^verbatim>\<open>app/services/azure_cosmos_db.py\<close> builds Python dictionaries and
  hands them to the document store as JSON. A document is an association list in
  insertion order, as a Python \<^verbatim>\<open>dict\<close> is; a key that is absent is different from
  a key that holds \<^verbatim>\<open>None\<close> (JSON \<^verbatim>\<open>null\<close>). Numbers are rationals: every finite
  Python \<^verbatim>\<open>int\<close> and \<^verbatim>\<open>float\<close> is one, and the code only compares them and adds one.
  Strings are byte lists.
\<close>

datatype json =
    JNull
  | JBool bool
  | JNum rat
  | JStr string
  | JArr "json list"
  | JObj "(string \<times> json) list"

type_synonym doc = "(string \<times> json) list"

definition field :: "doc \<Rightarrow> string \<Rightarrow> json option" where
  "field d k = map_of d k"

text \<open>\<^verbatim>\<open>d[k] = v\<close>: an existing key keeps its place, a new key goes to the end.\<close>

definition set_field :: "string \<Rightarrow> json \<Rightarrow> doc \<Rightarrow> doc" where
  "set_field k v d = AList.update k v d"

text \<open>Optional arguments as they are serialised: \<^verbatim>\<open>None\<close> is \<^verbatim>\<open>null\<close>.\<close>

definition opt_vector :: "rat list option \<Rightarrow> json" where
  "opt_vector e = (case e of None \<Rightarrow> JNull | Some xs \<Rightarrow> JArr (map JNum xs))"

definition opt_json :: "json option \<Rightarrow> json" where
  "opt_json v = (case v of None \<Rightarrow> JNull | Some j \<Rightarrow> j)"

definition str_array :: "string list \<Rightarrow> json" where
  "str_array xs = JArr (map JStr xs)"

section \<open>The document store\<close>

text \<open>
  The store is an external service. A container holds its items in a list and is
  configured with the paths of its partition key (\<^verbatim>\<open>data/seed_data.py\<close> creates
  Messages with \<^verbatim>\<open>/tenantId, /userId, /sessionId\<close>). Every call of the client library can
  raise: the world carries a schedule of faults, one flag per call still to come, and a
  call whose flag is set raises. An empty schedule means no further fault.
\<close>

datatype cname = Sessions | Messages | Summaries | Memories | Places

record container =
  pk_paths :: "string list"
  items :: "doc list"

record world =
  containers :: "cname \<Rightarrow> container option"
  faults :: "bool list"

datatype error =
    CosmosNotAvailable
  | StoreFailure
  | TypeError
  | BadRequest

definition sdk_call :: "world \<Rightarrow> bool \<times> world" where
  "sdk_call w =
     (case faults w of
        [] \<Rightarrow> (False, w)
      | f # fs \<Rightarrow> (f, w\<lparr>faults := fs\<rparr>))"

definition pk_of :: "string list \<Rightarrow> doc \<Rightarrow> json option list" where
  "pk_of ps d = map (field d) ps"

definition same_item :: "string list \<Rightarrow> doc \<Rightarrow> doc \<Rightarrow> bool" where
  "same_item ps d e \<longleftrightarrow> field d ''id'' = field e ''id'' \<and> pk_of ps d = pk_of ps e"

text \<open>Insert or overwrite by id within the logical partition.\<close>

fun upsert_doc :: "string list \<Rightarrow> doc \<Rightarrow> doc list \<Rightarrow> doc list" where
  "upsert_doc ps d [] = [d]"
| "upsert_doc ps d (e # es) =
     (if same_item ps d e then d # es else e # upsert_doc ps d es)"

definition put_items :: "cname \<Rightarrow> container \<Rightarrow> doc list \<Rightarrow> world \<Rightarrow> world" where
  "put_items c ct ds w = w\<lparr>containers := (containers w)(c := Some (ct\<lparr>items := ds\<rparr>))\<rparr>"

text \<open>\<^verbatim>\<open>container.upsert_item(doc)\<close>. The service never calls it on an unset handle.\<close>

definition upsert_item :: "cname \<Rightarrow> doc \<Rightarrow> world \<Rightarrow> (error + unit) \<times> world" where
  "upsert_item c d w =
     (case sdk_call w of
        (True, w') \<Rightarrow> (Inl StoreFailure, w')
      | (False, w') \<Rightarrow>
          (case containers w' c of
             None \<Rightarrow> (Inl CosmosNotAvailable, w')
           | Some ct \<Rightarrow> (Inr (), put_items c ct (upsert_doc (pk_paths ct) d (items ct)) w')))"

text \<open>
  \<^verbatim>\<open>list(container.query_items(query, parameters, enable_cross_partition_query=True))\<close>.
  The meaning of the query text with its parameters is a function on the items of the
  container; each service function below spells out the function its text denotes.
\<close>

definition query_items :: "cname \<Rightarrow> (doc list \<Rightarrow> doc list) \<Rightarrow> world \<Rightarrow> (error + doc list) \<times> world" where
  "query_items c q w =
     (case sdk_call w of
        (True, w') \<Rightarrow> (Inl StoreFailure, w')
      | (False, w') \<Rightarrow>
          (case containers w' c of
             None \<Rightarrow> (Inl CosmosNotAvailable, w')
           | Some ct \<Rightarrow> (Inr (q (items ct)), w')))"

definition available :: "world \<Rightarrow> cname \<Rightarrow> bool" where
  "available w c \<longleftrightarrow> containers w c \<noteq> None"

definition stored :: "world \<Rightarrow> cname \<Rightarrow> doc list" where
  "stored w c = (case containers w c of None \<Rightarrow> [] | Some ct \<Rightarrow> items ct)"

section \<open>Query texts\<close>

text \<open>
  \<^verbatim>\<open>ORDER BY c.f\<close>: values of different types are ranked undefined, null, boolean,
  number, string, array, object; strings compare bytewise. Under the store's default
  indexing policy a document in which the sort property is undefined is not returned.
  \<^verbatim>\<open>DESC\<close> is the descending order, items with equal keys staying in store order.
\<close>

fun order_key :: "json option \<Rightarrow> nat \<times> rat \<times> string" where
  "order_key None = (0, 0, [])"
| "order_key (Some JNull) = (1, 0, [])"
| "order_key (Some (JBool b)) = (2, (if b then 1 else 0), [])"
| "order_key (Some (JNum x)) = (3, x, [])"
| "order_key (Some (JStr s)) = (4, 0, s)"
| "order_key (Some (JArr xs)) = (5, 0, [])"
| "order_key (Some (JObj kvs)) = (6, 0, [])"

definition order_by_desc :: "string \<Rightarrow> doc list \<Rightarrow> doc list" where
  "order_by_desc f cs =
     rev (sort_key (\<lambda>c. order_key (field c f)) (rev (filter (\<lambda>c. field c f \<noteq> None) cs)))"

text \<open>\<^verbatim>\<open>c.sessionId = @sessionId AND c.tenantId = @tenantId AND c.userId = @userId\<close>\<close>

definition session_scope :: "string \<Rightarrow> string \<Rightarrow> string \<Rightarrow> doc \<Rightarrow> bool" where
  "session_scope session_id tenant_id user_id c \<longleftrightarrow>
     field c ''sessionId'' = Some (JStr session_id) \<and>
     field c ''tenantId'' = Some (JStr tenant_id) \<and>
     field c ''userId'' = Some (JStr user_id)"

text \<open>\<^verbatim>\<open>(NOT IS_DEFINED(c.superseded) OR c.superseded = false)\<close>\<close>

definition not_superseded :: "doc \<Rightarrow> bool" where
  "not_superseded c \<longleftrightarrow>
     field c ''superseded'' = None \<or> field c ''superseded'' = Some (JBool False)"

section \<open>Memories\<close>

text \<open>
  \<^verbatim>\<open>store_memory\<close>. The random suffix \<^verbatim>\<open>uuid.uuid4().hex[:12]\<close> and the clock reading
  \<^verbatim>\<open>datetime.utcnow().isoformat()\<close> are inputs.
\<close>

definition memory_ttl :: "string \<Rightarrow> json" where
  "memory_ttl memory_type = (if memory_type = ''episodic'' then JNum 7776000 else JNull)"

definition memory_doc ::
  "string \<Rightarrow> string \<Rightarrow> string \<Rightarrow> string \<Rightarrow> string \<Rightarrow> string \<Rightarrow> doc \<Rightarrow> rat \<Rightarrow> string \<Rightarrow>
   rat list option \<Rightarrow> doc" where
  "memory_doc uid clock user_id tenant_id memory_type text facets salience justification embedding =
     [(''id'', JStr (''mem_'' @ uid)),
      (''memoryId'', JStr (''mem_'' @ uid)),
      (''userId'', JStr user_id),
      (''tenantId'', JStr tenant_id),
      (''memoryType'', JStr memory_type),
      (''text'', JStr text),
      (''facets'', JObj facets),
      (''embedding'', opt_vector embedding),
      (''salience'', JNum salience),
      (''ttl'', memory_ttl memory_type),
      (''justification'', JStr justification),
      (''lastUsedAt'', JStr (clock @ ''Z'')),
      (''extractedAt'', JStr (clock @ ''Z''))]"

definition store_memory ::
  "string \<Rightarrow> string \<Rightarrow> string \<Rightarrow> string \<Rightarrow> string \<Rightarrow> string \<Rightarrow> doc \<Rightarrow> rat \<Rightarrow> string \<Rightarrow>
   rat list option \<Rightarrow> world \<Rightarrow> (error + string) \<times> world" where
  "store_memory uid clock user_id tenant_id memory_type text facets salience justification embedding w =
     (if \<not> available w Memories then (Inl CosmosNotAvailable, w)
      else
        (case upsert_item Memories
                (memory_doc uid clock user_id tenant_id memory_type text facets salience
                   justification embedding) w of
           (Inl e, w') \<Rightarrow> (Inl e, w')
         | (Inr _, w') \<Rightarrow> (Inr (''mem_'' @ uid), w')))"

text \<open>
  \<^verbatim>\<open>query_memories\<close> builds its query text: the type names are pasted between single
  quotes, joined with \<^verbatim>\<open>", "\<close>, into \<^verbatim>\<open>AND c.memoryType IN (...)\<close>; an empty list, like
  \<^verbatim>\<open>None\<close>, adds no type filter (\<^verbatim>\<open>if memory_types:\<close>).
\<close>

fun str_join :: "string \<Rightarrow> string list \<Rightarrow> string" where
  "str_join sep [] = []"
| "str_join sep [x] = x"
| "str_join sep (x # y # ys) = x @ sep @ str_join sep (y # ys)"

definition type_filter_text :: "string list \<Rightarrow> string" where
  "type_filter_text types =
     (if types = [] then []
      else ''AND c.memoryType IN ('' @
           str_join '', '' (map (\<lambda>t. [CHR 0x27] @ t @ [CHR 0x27]) types) @ '')'')"

definition memories_query_text :: "string \<Rightarrow> string" where
  "memories_query_text type_filter =
     [CHR 0x0A] @ ''    SELECT TOP 5 * FROM c '' @
     [CHR 0x0A] @ ''    WHERE c.userId = @userId '' @
     [CHR 0x0A] @ ''    AND c.tenantId = @tenantId'' @
     [CHR 0x0A] @ ''    AND c.salience >= @minSalience'' @
     [CHR 0x0A] @ ''    '' @ type_filter @
     [CHR 0x0A] @ ''    ORDER BY c.createdAt DESC'' @
     [CHR 0x0A] @ ''    ''"

text \<open>
  What the store makes of that text. When no name holds a quote or a backslash, the
  pasted part is a list of string literals equal to the names, and the query is the one
  spelled out below: the filter on user, tenant, salience and type, descending
  \<^verbatim>\<open>createdAt\<close>, the first five. Any other name changes the structure of the text; there
  the store's own reading of the text that was built, with its parameters, is the
  parameter \<open>store_reads\<close> (\<open>None\<close>: the store rejects the text and the call raises).
\<close>

definition plain_name :: "string \<Rightarrow> bool" where
  "plain_name t \<longleftrightarrow> CHR 0x27 \<notin> set t \<and> CHR 0x5C \<notin> set t"

definition salience_at_least :: "rat \<Rightarrow> doc \<Rightarrow> bool" where
  "salience_at_least min_salience c =
     (case field c ''salience'' of
        Some (JNum s) \<Rightarrow> min_salience \<le> s
      | other \<Rightarrow> False)"

definition memory_filter :: "string \<Rightarrow> string \<Rightarrow> string list \<Rightarrow> rat \<Rightarrow> doc \<Rightarrow> bool" where
  "memory_filter user_id tenant_id types min_salience c \<longleftrightarrow>
     field c ''userId'' = Some (JStr user_id) \<and>
     field c ''tenantId'' = Some (JStr tenant_id) \<and>
     salience_at_least min_salience c \<and>
     (types = [] \<or> field c ''memoryType'' \<in> set (map (\<lambda>t. Some (JStr t)) types))"

definition rejected :: "world \<Rightarrow> (error + doc list) \<times> world" where
  "rejected w =
     (case sdk_call w of
        (True, w') \<Rightarrow> (Inl StoreFailure, w')
      | (False, w') \<Rightarrow> (Inl BadRequest, w'))"

definition query_memories ::
  "(string \<Rightarrow> (string \<times> json) list \<Rightarrow> (doc list \<Rightarrow> doc list) option) \<Rightarrow>
   string \<Rightarrow> string \<Rightarrow> string list option \<Rightarrow> rat \<Rightarrow> world \<Rightarrow> (error + doc list) \<times> world" where
  "query_memories store_reads user_id tenant_id memory_types min_salience w =
     (if \<not> available w Memories then (Inr [], w)
      else
        (let types = (case memory_types of None \<Rightarrow> [] | Some ts \<Rightarrow> ts) in
         if list_all plain_name types then
           query_items Memories
             (\<lambda>cs. take 5 (order_by_desc ''createdAt''
                (filter (memory_filter user_id tenant_id types min_salience) cs))) w
         else
           (case store_reads (memories_query_text (type_filter_text types))
                   [(''@userId'', JStr user_id), (''@tenantId'', JStr tenant_id),
                    (''@minSalience'', JNum min_salience)] of
              None \<Rightarrow> rejected w
            | Some q \<Rightarrow> query_items Memories q w)))"

text \<open>
  The loader \<^verbatim>\<open>data/load_data.py\<close>, \<^verbatim>\<open>seed_memories\<close>: a memory whose \<^verbatim>\<open>ttl\<close> is the
  no-expiration value \<^verbatim>\<open>-1\<close> loses the field before it is written.
\<close>

definition load_memory_ttl :: "doc \<Rightarrow> doc" where
  "load_memory_ttl memory =
     (if field memory ''ttl'' = Some (JNum (- 1)) then AList.delete ''ttl'' memory else memory)"

section \<open>Places\<close>

text \<open>
  \<^verbatim>\<open>geo_scope_id.lower().strip()\<close>. Python's \<^verbatim>\<open>str.lower\<close> and \<^verbatim>\<open>str.strip\<close> work on
  Unicode text with the tables of the interpreter: they are the parameters \<open>str_lower\<close>
  and \<open>str_strip\<close> of \<^verbatim>\<open>query_places\<close>. On ASCII text they are \<open>ascii_lower\<close> and
  \<open>ascii_strip\<close>, which the examples use.
\<close>

definition normalize_scope ::
  "(string \<Rightarrow> string) \<Rightarrow> (string \<Rightarrow> string) \<Rightarrow> string \<Rightarrow> string" where
  "normalize_scope str_lower str_strip geo_scope_id = str_strip (str_lower geo_scope_id)"

definition lower_char :: "char \<Rightarrow> char" where
  "lower_char c =
     (case map_of (zip ''ABCDEFGHIJKLMNOPQRSTUVWXYZ'' ''abcdefghijklmnopqrstuvwxyz'') c of
        None \<Rightarrow> c
      | Some l \<Rightarrow> l)"

definition is_space :: "char \<Rightarrow> bool" where
  "is_space c \<longleftrightarrow>
     c \<in> set [CHR 0x09, CHR 0x0A, CHR 0x0B, CHR 0x0C, CHR 0x0D,
               CHR 0x1C, CHR 0x1D, CHR 0x1E, CHR 0x1F, CHR 0x20]"

definition ascii_lower :: "string \<Rightarrow> string" where
  "ascii_lower s = map lower_char s"

definition ascii_strip :: "string \<Rightarrow> string" where
  "ascii_strip s = rev (dropWhile is_space (rev (dropWhile is_space s)))"

text \<open>
  \<^verbatim>\<open>VectorDistance(c.embedding, @referenceVector)\<close> is computed by the store with the
  distance function of the container's vector policy: the parameter \<open>vd\<close>, undefined
  (\<open>None\<close>) where the store gives no number. \<^verbatim>\<open>data/seed_data.py\<close> creates every
  vector path with \<^verbatim>\<open>SIMILARITY_METRIC = "cosine"\<close>. Under cosine and dot product the
  value is a similarity score, greater for more similar vectors; under euclidean it is a
  distance, smaller for more similar vectors. \<^verbatim>\<open>ORDER BY VectorDistance(...)\<close> takes no
  direction: the store ranks from the most similar to the least similar, items of equal
  value staying in store order.
\<close>

datatype distance_function = Cosine | DotProduct | Euclidean

definition SIMILARITY_METRIC :: distance_function where
  "SIMILARITY_METRIC = Cosine"

definition most_similar_first ::
  "distance_function \<Rightarrow> (doc \<Rightarrow> rat option) \<Rightarrow> doc list \<Rightarrow> doc list" where
  "most_similar_first metric score cs =
     (case metric of
        Euclidean \<Rightarrow> sort_key score cs
      | Cosine \<Rightarrow> rev (sort_key score (rev cs))
      | DotProduct \<Rightarrow> rev (sort_key score (rev cs)))"

definition vector_distance ::
  "(json option \<Rightarrow> rat list \<Rightarrow> rat option) \<Rightarrow> rat list \<Rightarrow> doc \<Rightarrow> rat option" where
  "vector_distance vd vectors c = vd (field c ''embedding'') vectors"

definition place_filter ::
  "(json option \<Rightarrow> rat list \<Rightarrow> rat option) \<Rightarrow> rat list \<Rightarrow> string \<Rightarrow> string option \<Rightarrow>
   int option \<Rightarrow> doc \<Rightarrow> bool" where
  "place_filter vd vectors geo place_type price_tier c \<longleftrightarrow>
     field c ''geoScopeId'' = Some (JStr geo) \<and>
     (case place_type of
        None \<Rightarrow> True
      | Some t \<Rightarrow> t = [] \<or> field c ''type'' = Some (JStr t)) \<and>
     (case price_tier of
        None \<Rightarrow> True
      | Some p \<Rightarrow> field c ''priceTier'' = Some (JNum (of_int p))) \<and>
     (case vector_distance vd vectors c of
        None \<Rightarrow> False
      | Some x \<Rightarrow> x > 75 / 1000)"

definition place_fields :: "string list" where
  "place_fields =
     [''geoScopeId'', ''name'', ''type'', ''description'', ''tags'', ''accessibility'',
      ''hours'', ''neighborhood'', ''priceTier'', ''rating'']"

definition select_fields :: "string list \<Rightarrow> doc \<Rightarrow> doc" where
  "select_fields fs c = List.map_filter (\<lambda>f. map_option (Pair f) (field c f)) fs"

text \<open>
  \<^verbatim>\<open>query_places\<close>; its parameters \<^verbatim>\<open>tags\<close> and \<^verbatim>\<open>dietary\<close> are only logged. An
  unset handle gives the empty list; an exception of the query is logged and raised
  again.
\<close>

definition query_places ::
  "(string \<Rightarrow> string) \<Rightarrow> (string \<Rightarrow> string) \<Rightarrow> (json option \<Rightarrow> rat list \<Rightarrow> rat option) \<Rightarrow>
   rat list \<Rightarrow> string \<Rightarrow> string option \<Rightarrow> int option \<Rightarrow> world \<Rightarrow> (error + doc list) \<times> world" where
  "query_places str_lower str_strip vd vectors geo_scope_id place_type price_tier w =
     (if \<not> available w Places then (Inr [], w)
      else
        (case query_items Places
                (\<lambda>cs. map (select_fields place_fields)
                   (take 5 (most_similar_first SIMILARITY_METRIC (vector_distance vd vectors)
                      (filter (place_filter vd vectors
                                 (normalize_scope str_lower str_strip geo_scope_id)
                                 place_type price_tier) cs)))) w of
           (Inl ex, w') \<Rightarrow> (Inl ex, w')
         | (Inr its, w') \<Rightarrow> (Inr its, w')))"

section \<open>Sessions\<close>

text \<open>\<^verbatim>\<open>get_session_by_id\<close>: any exception of the query is caught and \<^verbatim>\<open>None\<close> returned.\<close>

definition get_session_by_id ::
  "string \<Rightarrow> string \<Rightarrow> string \<Rightarrow> world \<Rightarrow> (error + doc option) \<times> world" where
  "get_session_by_id session_id tenant_id user_id w =
     (if \<not> available w Sessions then (Inl CosmosNotAvailable, w)
      else
        (case query_items Sessions (filter (session_scope session_id tenant_id user_id)) w of
           (Inl e, w') \<Rightarrow> (Inr None, w')
         | (Inr [], w') \<Rightarrow> (Inr None, w')
         | (Inr (c # cs), w') \<Rightarrow> (Inr (Some c), w')))"

text \<open>
  \<^verbatim>\<open>session.get("messageCount", 0) + 1\<close>: a number is incremented, a boolean counts as
  0 or 1, anything else raises \<^verbatim>\<open>TypeError\<close>.
\<close>

definition next_message_count :: "doc \<Rightarrow> error + rat" where
  "next_message_count session =
     (case field session ''messageCount'' of
        None \<Rightarrow> Inr 1
      | Some (JNum n) \<Rightarrow> Inr (n + 1)
      | Some (JBool b) \<Rightarrow> Inr ((if b then 1 else 0) + 1)
      | Some other \<Rightarrow> Inl TypeError)"

text \<open>\<^verbatim>\<open>update_session_activity\<close>; \<open>clock\<close> is its reading of \<^verbatim>\<open>datetime.utcnow()\<close>.\<close>

definition update_session_activity ::
  "string \<Rightarrow> string \<Rightarrow> string \<Rightarrow> string \<Rightarrow> world \<Rightarrow> (error + unit) \<times> world" where
  "update_session_activity clock session_id tenant_id user_id w =
     (if \<not> available w Sessions then (Inr (), w)
      else
        (case get_session_by_id session_id tenant_id user_id w of
           (Inl e, w') \<Rightarrow> (Inl e, w')
         | (Inr None, w') \<Rightarrow> (Inr (), w')
         | (Inr (Some session), w') \<Rightarrow>
             (if session = [] then (Inr (), w')
              else
                (case next_message_count
                        (set_field ''lastActivityAt'' (JStr (clock @ ''Z'')) session) of
                   Inl e \<Rightarrow> (Inl e, w')
                 | Inr n \<Rightarrow>
                     upsert_item Sessions
                       (set_field ''messageCount'' (JNum n)
                          (set_field ''lastActivityAt'' (JStr (clock @ ''Z'')) session)) w'))))"

section \<open>Messages\<close>

definition message_doc ::
  "string \<Rightarrow> string \<Rightarrow> string \<Rightarrow> string \<Rightarrow> string \<Rightarrow> string \<Rightarrow> string \<Rightarrow> doc option \<Rightarrow>
   rat list option \<Rightarrow> string list option \<Rightarrow> doc" where
  "message_doc uid clock session_id tenant_id user_id role content tool_call embedding kwords =
     [(''id'', JStr (''msg_'' @ uid)),
      (''messageId'', JStr (''msg_'' @ uid)),
      (''sessionId'', JStr session_id),
      (''tenantId'', JStr tenant_id),
      (''userId'', JStr user_id),
      (''role'', JStr role),
      (''content'', JStr content),
      (''toolCall'', opt_json (map_option JObj tool_call)),
      (''embedding'', opt_vector embedding),
      (''ts'', JStr (clock @ ''Z'')),
      (''keywords'', str_array (case kwords of None \<Rightarrow> [] | Some ks \<Rightarrow> ks)),
      (''superseded'', JBool False)]"

text \<open>
  \<^verbatim>\<open>append_message\<close>: the message is written, then the session activity is updated, with
  no handler around either call. \<open>clock\<close> is read for the message, \<open>clock2\<close> inside
  \<^verbatim>\<open>update_session_activity\<close>.
\<close>

definition append_message ::
  "string \<Rightarrow> string \<Rightarrow> string \<Rightarrow> string \<Rightarrow> string \<Rightarrow> string \<Rightarrow> string \<Rightarrow> string \<Rightarrow> doc option \<Rightarrow>
   rat list option \<Rightarrow> string list option \<Rightarrow> world \<Rightarrow> (error + string) \<times> world" where
  "append_message uid clock clock2 session_id tenant_id user_id role content tool_call embedding
     kwords w =
     (if \<not> available w Messages then (Inl CosmosNotAvailable, w)
      else
        (case upsert_item Messages
                (message_doc uid clock session_id tenant_id user_id role content tool_call
                   embedding kwords) w of
           (Inl e, w') \<Rightarrow> (Inl e, w')
         | (Inr u, w') \<Rightarrow>
             (case update_session_activity clock2 session_id tenant_id user_id w' of
                (Inl e, w'') \<Rightarrow> (Inl e, w'')
              | (Inr u', w'') \<Rightarrow> (Inr (''msg_'' @ uid), w''))))"

text \<open>\<^verbatim>\<open>get_session_messages\<close>: an unset handle gives the empty list.\<close>

definition get_session_messages ::
  "string \<Rightarrow> string \<Rightarrow> string \<Rightarrow> bool \<Rightarrow> world \<Rightarrow> (error + doc list) \<times> world" where
  "get_session_messages session_id tenant_id user_id include_superseded w =
     (if \<not> available w Messages then (Inr [], w)
      else
        query_items Messages
          (\<lambda>cs. order_by_desc ''ts''
             (filter (\<lambda>c. session_scope session_id tenant_id user_id c \<and>
                           (include_superseded \<or> not_superseded c)) cs)) w)"

section \<open>Summaries\<close>

definition summary_doc ::
  "string \<Rightarrow> string \<Rightarrow> string \<Rightarrow> string \<Rightarrow> string \<Rightarrow> string \<Rightarrow> (string \<times> string) list \<Rightarrow>
   rat list option \<Rightarrow> string list option \<Rightarrow> doc" where
  "summary_doc uid clock session_id tenant_id user_id summary_text span_arg embedding supersedes =
     [(''id'', JStr (''summary_'' @ uid)),
      (''summaryId'', JStr (''summary_'' @ uid)),
      (''sessionId'', JStr session_id),
      (''tenantId'', JStr tenant_id),
      (''userId'', JStr user_id),
      (''span'', JObj (map (\<lambda>(k, v). (k, JStr v)) span_arg)),
      (''text'', JStr summary_text),
      (''embedding'', opt_vector embedding),
      (''createdAt'', JStr (clock @ ''Z'')),
      (''supersedes'', str_array (case supersedes of None \<Rightarrow> [] | Some ms \<Rightarrow> ms))]"

text \<open>\<^verbatim>\<open>SELECT * FROM c WHERE c.messageId = @msgId\<close>, over all partitions.\<close>

definition msg_with_id :: "string \<Rightarrow> doc \<Rightarrow> bool" where
  "msg_with_id msg_id c \<longleftrightarrow> field c ''messageId'' = Some (JStr msg_id)"

definition by_message_id :: "string \<Rightarrow> doc list \<Rightarrow> doc list" where
  "by_message_id msg_id cs = filter (msg_with_id msg_id) cs"

definition mark_doc :: "doc \<Rightarrow> doc" where
  "mark_doc msg = set_field ''ttl'' (JNum 2592000) (set_field ''superseded'' (JBool True) msg)"

text \<open>
  The body of the loop over \<^verbatim>\<open>supersedes\<close>, inside its \<^verbatim>\<open>try\<close>: an exception of the
  lookup or of the write is logged and the loop goes on.
\<close>

definition mark_message :: "string \<Rightarrow> world \<Rightarrow> world" where
  "mark_message msg_id w =
     (case query_items Messages (by_message_id msg_id) w of
        (Inl e, w') \<Rightarrow> w'
      | (Inr [], w') \<Rightarrow> w'
      | (Inr (msg # rest), w') \<Rightarrow> snd (upsert_item Messages (mark_doc msg) w'))"

fun mark_superseded :: "string list \<Rightarrow> world \<Rightarrow> world" where
  "mark_superseded [] w = w"
| "mark_superseded (msg_id # msg_ids) w = mark_superseded msg_ids (mark_message msg_id w)"

definition create_summary ::
  "string \<Rightarrow> string \<Rightarrow> string \<Rightarrow> string \<Rightarrow> string \<Rightarrow> string \<Rightarrow> (string \<times> string) list \<Rightarrow>
   rat list option \<Rightarrow> string list option \<Rightarrow> world \<Rightarrow> (error + string) \<times> world" where
  "create_summary uid clock session_id tenant_id user_id summary_text span_arg embedding supersedes w =
     (if \<not> available w Summaries \<or> \<not> available w Messages then (Inl CosmosNotAvailable, w)
      else
        (case upsert_item Summaries
                (summary_doc uid clock session_id tenant_id user_id summary_text span_arg embedding
                   supersedes) w of
           (Inl e, w') \<Rightarrow> (Inl e, w')
         | (Inr u, w') \<Rightarrow>
             (Inr (''summary_'' @ uid),
              mark_superseded (case supersedes of None \<Rightarrow> [] | Some ms \<Rightarrow> ms) w')))"

text \<open>Reading a summary back: the message ids in its \<^verbatim>\<open>supersedes\<close> field.\<close>

definition supersedes_of :: "doc \<Rightarrow> string list" where
  "supersedes_of d =
     (case field d ''supersedes'' of
        Some (JArr xs) \<Rightarrow> List.map_filter (\<lambda>j. case j of JStr m \<Rightarrow> Some m | other \<Rightarrow> None) xs
      | other \<Rightarrow> [])"

text \<open>\<^verbatim>\<open>supersedes or []\<close>: the list the caller passed, \<^verbatim>\<open>None\<close> read as empty.\<close>

definition arg_list :: "string list option \<Rightarrow> string list" where
  "arg_list supersedes = (case supersedes of None \<Rightarrow> [] | Some ms \<Rightarrow> ms)"

text \<open>The same store with the \<^verbatim>\<open>embedding\<close> field removed from every memory.\<close>

definition without_embeddings :: "world \<Rightarrow> world" where
  "without_embeddings w =
     w\<lparr>containers := (containers w)(Memories :=
          map_option (\<lambda>ct. ct\<lparr>items := map (AList.delete ''embedding'') (items ct)\<rparr>)
            (containers w Memories))\<rparr>"

section \<open>Example states\<close>

text \<open>
  All containers set and empty, with the partition keys of \<^verbatim>\<open>data/seed_data.py\<close>, and
  no fault to come.
\<close>

definition empty_world :: world where
  "empty_world =
     \<lparr>containers = (\<lambda>c. Some \<lparr>pk_paths =
          (case c of
             Memories \<Rightarrow> [''tenantId'', ''userId'', ''memoryId'']
           | Places \<Rightarrow> [''geoScopeId'']
           | _ \<Rightarrow> [''tenantId'', ''userId'', ''sessionId'']), items = []\<rparr>),
      faults = []\<rparr>"

definition demo_m1 :: doc where
  "demo_m1 = message_doc ''a1'' ''2025-01-01T10:00:00'' ''s1'' ''t1'' ''u1'' ''user'' ''hello''
     None None None"

definition demo_m2 :: doc where
  "demo_m2 = message_doc ''a2'' ''2025-01-01T10:05:00'' ''s1'' ''t1'' ''u1'' ''user'' ''again''
     None None None"

definition demo_m3 :: doc where
  "demo_m3 = message_doc ''b1'' ''2025-01-01T09:00:00'' ''s2'' ''t2'' ''u2'' ''user'' ''other''
     None None None"

definition with_items :: "cname \<Rightarrow> doc list \<Rightarrow> world \<Rightarrow> world" where
  "with_items c ds w =
     w\<lparr>containers := (containers w)(c := Some \<lparr>pk_paths =
          (case c of
             Memories \<Rightarrow> [''tenantId'', ''userId'', ''memoryId'']
           | Places \<Rightarrow> [''geoScopeId'']
           | _ \<Rightarrow> [''tenantId'', ''userId'', ''sessionId'']), items = ds\<rparr>)\<rparr>"

definition demo_world :: world where
  "demo_world = with_items Messages [mark_doc demo_m1, demo_m2, demo_m3] empty_world"

definition unset :: "cname \<Rightarrow> world \<Rightarrow> world" where
  "unset c w = w\<lparr>containers := (containers w)(c := None)\<rparr>"

definition demo_session :: doc where
  "demo_session =
     [(''id'', JStr ''s1''), (''sessionId'', JStr ''s1''), (''tenantId'', JStr ''t1''),
      (''userId'', JStr ''u1''), (''messageCount'', JNum 0)]"

definition demo_sessions_world :: world where
  "demo_sessions_world = with_items Sessions [demo_session] empty_world"

text \<open>A toy distance for the examples: the first component of the stored embedding.\<close>

definition demo_vd :: "json option \<Rightarrow> rat list \<Rightarrow> rat option" where
  "demo_vd e v = (case e of Some (JArr [JNum x]) \<Rightarrow> Some x | other \<Rightarrow> None)"

definition demo_place :: "string \<Rightarrow> string \<Rightarrow> rat \<Rightarrow> doc" where
  "demo_place name geo x =
     [(''id'', JStr name), (''geoScopeId'', JStr geo), (''type'', JStr ''restaurant''),
      (''name'', JStr name), (''priceTier'', JNum 2), (''embedding'', JArr [JNum x])]"

definition demo_places_world :: world where
  "demo_places_world =
     with_items Places
       [demo_place ''far'' ''paris'' (1 / 2), demo_place ''near'' ''paris'' (1 / 20),
        demo_place ''rome'' ''rome'' (9 / 10), demo_place ''mid'' ''paris'' (1 / 10),
        demo_place ''best'' ''paris'' (19 / 20), demo_place ''fair'' ''paris'' (1 / 4),
        demo_place ''good'' ''paris'' (3 / 4), demo_place ''okay'' ''paris'' (1 / 5)]
       empty_world"

definition demo_fresh_world :: world where
  "demo_fresh_world = with_items Messages [demo_m1, demo_m2, demo_m3] empty_world"

definition demo_m4 :: doc where
  "demo_m4 = message_doc ''a1'' ''2025-01-01T08:00:00'' ''s2'' ''t2'' ''u2'' ''user'' ''theirs''
     None None None"

definition demo_shared_world :: world where
  "demo_shared_world = with_items Messages [demo_m4, demo_m1] empty_world"

definition demo_sum_a :: doc where
  "demo_sum_a = summary_doc ''x1'' ''2025-01-03T00:00:00'' ''s1'' ''t1'' ''u1'' ''first''
     [(''from'', ''msg_a1''), (''to'', ''msg_a1'')] None (Some [''msg_a1''])"

definition demo_sum_b :: doc where
  "demo_sum_b = summary_doc ''x2'' ''2025-01-04T00:00:00'' ''s1'' ''t1'' ''u1'' ''second''
     [(''from'', ''msg_a2''), (''to'', ''msg_a2'')] None (Some [''msg_a2''])"

definition demo_sum_c :: doc where
  "demo_sum_c = summary_doc ''x2'' ''2025-01-04T00:00:00'' ''s1'' ''t1'' ''u1'' ''again''
     [(''from'', ''msg_a1''), (''to'', ''msg_a1'')] None (Some [''msg_a1''])"

definition demo_sum_d :: doc where
  "demo_sum_d = summary_doc ''x1'' ''2025-01-03T00:00:00'' ''s1'' ''t1'' ''u1'' ''theirs''
     [(''from'', ''msg_b1''), (''to'', ''msg_b1'')] None (Some [''msg_b1''])"

definition demo_after_first :: world where
  "demo_after_first =
     with_items Summaries [demo_sum_a]
       (with_items Messages [mark_doc demo_m1, demo_m2, demo_m3] empty_world)"

text \<open>Memories in the shape \<^verbatim>\<open>seed_data_new.py\<close> generates them, with \<^verbatim>\<open>createdAt\<close>.\<close>

definition demo_memory :: "string \<Rightarrow> string \<Rightarrow> string \<Rightarrow> string \<Rightarrow> rat \<Rightarrow> string \<Rightarrow> doc" where
  "demo_memory memory_id user_id tenant_id memory_type salience created =
     [(''id'', JStr (tenant_id @ ''_'' @ user_id @ ''_'' @ memory_id)),
      (''memoryId'', JStr memory_id), (''userId'', JStr user_id), (''tenantId'', JStr tenant_id),
      (''category'', JStr ''dining''), (''memoryType'', JStr memory_type),
      (''text'', JStr ''prefers vegetarian food''), (''facets'', JObj []),
      (''salience'', JNum salience), (''justification'', JStr ''Extracted from conversation''),
      (''createdAt'', JStr created),
      (''ttl'', JNum (if memory_type = ''episodic'' then 7776000 else 31536000)),
      (''embedding'', JArr [JNum 1])]"

definition mem_a :: doc where
  "mem_a = demo_memory ''m1'' ''u1'' ''t1'' ''declarative'' (9 / 10) ''2025-01-01T00:00:00''"

definition mem_b :: doc where
  "mem_b = demo_memory ''m2'' ''u1'' ''t1'' ''episodic'' (1 / 2) ''2025-02-01T00:00:00''"

definition mem_c :: doc where
  "mem_c = demo_memory ''m3'' ''u1'' ''t1'' ''procedural'' (1 / 10) ''2025-03-01T00:00:00''"

definition mem_d :: doc where
  "mem_d = demo_memory ''m4'' ''u1'' ''t1'' ''episodic'' (4 / 5) ''2025-04-01T00:00:00''"

definition mem_e :: doc where
  "mem_e = demo_memory ''m5'' ''u1'' ''t1'' ''declarative'' (3 / 5) ''2025-05-01T00:00:00''"

definition mem_f :: doc where
  "mem_f = demo_memory ''m6'' ''u1'' ''t1'' ''episodic'' (7 / 10) ''2025-06-01T00:00:00''"

definition mem_g :: doc where
  "mem_g = demo_memory ''m7'' ''u1'' ''t1'' ''procedural'' (1 / 2) ''2025-07-01T00:00:00''"

definition mem_h :: doc where
  "mem_h = demo_memory ''m8'' ''u1'' ''t1'' ''episodic'' (3 / 10) ''2025-09-01T00:00:00''"

definition mem_other :: doc where
  "mem_other = demo_memory ''x1'' ''u2'' ''t2'' ''declarative'' (9 / 10) ''2025-08-01T00:00:00''"

text \<open>A memory as \<^verbatim>\<open>store_memory\<close> writes it.\<close>

definition mem_stored :: doc where
  "mem_stored = memory_doc ''0123456789ab'' ''2025-10-01T00:00:00'' ''u1'' ''t1'' ''episodic''
     ''likes trains'' [] (9 / 10) ''said so'' None"

definition demo_memories_world :: world where
  "demo_memories_world =
     with_items Memories
       [mem_c, mem_a, mem_other, mem_f, mem_stored, mem_b, mem_h, mem_g, mem_e, mem_d]
       empty_world"

text \<open>
  A type name that closes the literal and the list and adds a disjunct. The text built
  from it reads \<^verbatim>\<open>... AND c.salience >= @minSalience AND c.memoryType IN ('x') OR ('1'='1')\<close>;
  \<^verbatim>\<open>AND\<close> binds tighter than \<^verbatim>\<open>OR\<close>, so the store reads the filter as the conjunction
  or \<^verbatim>\<open>'1'='1'\<close>. \<open>demo_store_reads\<close> gives that reading for that text and rejects any other.
\<close>

definition injected_name :: string where
  "injected_name = ''x'' @ [CHR 0x27] @ '') OR ('' @ [CHR 0x27] @ ''1'' @ [CHR 0x27] @ ''=''
     @ [CHR 0x27] @ ''1''"

definition injected_text :: string where
  "injected_text =
     [CHR 0x0A] @ ''    SELECT TOP 5 * FROM c '' @
     [CHR 0x0A] @ ''    WHERE c.userId = @userId '' @
     [CHR 0x0A] @ ''    AND c.tenantId = @tenantId'' @
     [CHR 0x0A] @ ''    AND c.salience >= @minSalience'' @
     [CHR 0x0A] @ ''    AND c.memoryType IN ('' @ [CHR 0x27] @ ''x'' @ [CHR 0x27] @ '') OR (''
       @ [CHR 0x27] @ ''1'' @ [CHR 0x27] @ ''='' @ [CHR 0x27] @ ''1'' @ [CHR 0x27] @ '')'' @
     [CHR 0x0A] @ ''    ORDER BY c.createdAt DESC'' @
     [CHR 0x0A] @ ''    ''"

definition demo_store_reads :: "string \<Rightarrow> (string \<times> json) list \<Rightarrow> (doc list \<Rightarrow> doc list) option" where
  "demo_store_reads query_text params =
     (case (map_of params ''@userId'', map_of params ''@tenantId'', map_of params ''@minSalience'') of
        (Some (JStr u), Some (JStr t), Some (JNum s)) \<Rightarrow>
          (if query_text = injected_text then
             Some (\<lambda>cs. take 5 (order_by_desc ''createdAt''
                (filter (\<lambda>c. memory_filter u t [''x''] s c \<or> (''1'' :: string) = ''1'') cs)))
           else None)
      | other \<Rightarrow> None)"

section \<open>Store lemmas\<close>

lemma upsert_doc_mem: "d \<in> set (upsert_doc ps d ds)"
  by (induction ds) auto

lemma upsert_doc_keeps:
  "e \<in> set ds \<Longrightarrow> \<not> same_item ps d e \<Longrightarrow> e \<in> set (upsert_doc ps d ds)"
  by (induction ds) auto

lemma upsert_doc_from: "e \<in> set (upsert_doc ps d ds) \<Longrightarrow> e = d \<or> e \<in> set ds"
  by (induction ds) (auto split: if_splits)

lemma query_items_Inr:
  "query_items c q w = (Inr r, w') \<Longrightarrow> r = q (stored w c) \<and> available w c"
  by (auto simp: query_items_def sdk_call_def stored_def available_def
      split: list.splits bool.splits option.splits if_splits)

lemma set_order_by_desc: "set (order_by_desc f cs) = {c \<in> set cs. field c f \<noteq> None}"
  by (simp add: order_by_desc_def)

lemma sorted_order_by_desc:
  "sorted_wrt (\<lambda>a b. order_key (field b f) \<le> order_key (field a f)) (order_by_desc f cs)"
proof -
  let ?k = "\<lambda>c. order_key (field c f)"
  let ?ys = "rev (filter (\<lambda>c. field c f \<noteq> None) cs)"
  have "sorted (map ?k (sort_key ?k ?ys))"
    by (rule sorted_sort_key)
  then have "sorted_wrt (\<lambda>a b. ?k a \<le> ?k b) (sort_key ?k ?ys)"
    by (simp add: sorted_map)
  then show ?thesis
    by (simp add: order_by_desc_def sorted_wrt_rev)
qed

lemma field_mark_doc_superseded: "field (mark_doc d) ''superseded'' = Some (JBool True)"
  by (simp add: mark_doc_def set_field_def field_def update_conv')

lemmas eval_defs =
  empty_world_def with_items_def available_def stored_def query_items_def upsert_item_def
  sdk_call_def put_items_def order_by_desc_def session_scope_def not_superseded_def field_def
  message_doc_def mark_doc_def set_field_def opt_json_def opt_vector_def str_array_def
  same_item_def pk_of_def

lemma find_filter: "find P xs = (case filter P xs of [] \<Rightarrow> None | c # cs \<Rightarrow> Some c)"
  by (induction xs) auto

lemma field_select_fields:
  "field (select_fields fs c) k = (if k \<in> set fs then field c k else None)"
  by (induction fs) (auto simp: select_fields_def field_def split: option.splits)

lemma sorted_Some_keys:
  fixes k :: "'a \<Rightarrow> rat option"
  assumes "sorted_wrt (\<lambda>a b. k b \<le> k a) cs" and "\<forall>c\<in>set cs. \<exists>x. k c = Some x"
  shows "sorted_wrt (\<lambda>a b. \<exists>x y. k a = Some x \<and> k b = Some y \<and> y \<le> x) cs"
  using assms(1)
proof (rule sorted_wrt_mono_rel [rotated])
  fix a b
  assume "a \<in> set cs" "b \<in> set cs" "k b \<le> k a"
  with assms(2) show "\<exists>x y. k a = Some x \<and> k b = Some y \<and> y \<le> x"
    by (metis less_eq_option_Some)
qed

lemma set_most_similar_first: "set (most_similar_first metric score cs) = set cs"
  by (cases metric) (simp_all add: most_similar_first_def)

lemma most_similar_first_cosine:
  "sorted_wrt (\<lambda>a b. score b \<le> score a) (most_similar_first Cosine score cs)"
proof -
  have "sorted (map score (sort_key score (rev cs)))"
    by (rule sorted_sort_key)
  then have "sorted_wrt (\<lambda>a b. score a \<le> score b) (sort_key score (rev cs))"
    by (simp add: sorted_map)
  then show ?thesis
    by (simp add: most_similar_first_def sorted_wrt_rev)
qed

lemma place_filter_holds:
  "place_filter vd vectors geo place_type price_tier c \<Longrightarrow>
     field c ''geoScopeId'' = Some (JStr geo)
     \<and> (\<exists>x. vector_distance vd vectors c = Some x \<and> x > 75 / 1000)"
  by (cases "vector_distance vd vectors c") (simp_all add: place_filter_def)

lemmas place_eval_defs =
  query_places_def demo_places_world_def demo_place_def demo_vd_def normalize_scope_def
  ascii_strip_def ascii_lower_def lower_char_def is_space_def place_filter_def
  vector_distance_def select_fields_def place_fields_def most_similar_first_def
  SIMILARITY_METRIC_def

section \<open>Memory retention\<close>

text \<open>
  C7. \<^verbatim>\<open>store_memory\<close> gives an episodic memory a ttl of 7776000 seconds. For any other
  memory type the document that is written still has the key \<^verbatim>\<open>ttl\<close>, holding
  \<^verbatim>\<open>null\<close>: the field is not left out, unlike in the loader, which deletes it.
\<close>

theorem store_memory_ttl_field:
  "field (memory_doc uid clock user_id tenant_id ''episodic'' text facets salience justification embedding)
     ''ttl'' = Some (JNum 7776000)
   \<and> field (memory_doc uid clock user_id tenant_id ''declarative'' text facets salience justification embedding)
     ''ttl'' = Some JNull
   \<and> field (memory_doc uid clock user_id tenant_id ''procedural'' text facets salience justification embedding)
     ''ttl'' = Some JNull
   \<and> stored (snd (store_memory ''0123456789ab'' ''2025-01-01T00:00:00'' ''u1'' ''t1'' ''declarative''
        ''likes tea'' [] (1/2) ''said so'' None empty_world)) Memories
     = [memory_doc ''0123456789ab'' ''2025-01-01T00:00:00'' ''u1'' ''t1'' ''declarative''
        ''likes tea'' [] (1/2) ''said so'' None]
   \<and> field (load_memory_ttl [(''memoryId'', JStr ''m''), (''ttl'', JNum (- 1))]) ''ttl'' = None"
  by (simp add: memory_doc_def field_def memory_ttl_def store_memory_def available_def
      empty_world_def upsert_item_def sdk_call_def put_items_def stored_def load_memory_ttl_def)

section \<open>Supersession and the message listing\<close>

text \<open>
  C4. Let \<open>m\<close> be a message whose \<^verbatim>\<open>superseded\<close> field is true, as every document that
  \<^verbatim>\<open>create_summary\<close> writes back is (\<open>field_mark_doc_superseded\<close>). A listing with
  \<^verbatim>\<open>include_superseded=False\<close> never contains \<open>m\<close>. A listing of \<open>m\<close>'s own session with
  \<^verbatim>\<open>include_superseded=True\<close> contains \<open>m\<close> as long as \<open>m\<close> is still stored and carries
  its \<^verbatim>\<open>ts\<close>. Every listing is in descending order of \<^verbatim>\<open>ts\<close>.
\<close>

theorem get_session_messages_superseded:
  assumes sup: "field m ''superseded'' = Some (JBool True)"
  shows "(get_session_messages sid tid usr False w = (Inr ms, w') \<longrightarrow> m \<notin> set ms)
       \<and> (get_session_messages sid tid usr True w = (Inr ms, w') \<and> m \<in> set (stored w Messages)
            \<and> session_scope sid tid usr m \<and> field m ''ts'' \<noteq> None \<longrightarrow> m \<in> set ms)
       \<and> (get_session_messages sid tid usr inc w = (Inr ms, w') \<longrightarrow>
            sorted_wrt (\<lambda>a b. order_key (field b ''ts'') \<le> order_key (field a ''ts'')) ms)"
proof (intro conjI impI)
  assume "get_session_messages sid tid usr False w = (Inr ms, w')"
  then show "m \<notin> set ms"
    using sup
    by (auto simp: get_session_messages_def set_order_by_desc not_superseded_def
        dest!: query_items_Inr split: if_splits)
next
  assume "get_session_messages sid tid usr True w = (Inr ms, w') \<and> m \<in> set (stored w Messages)
            \<and> session_scope sid tid usr m \<and> field m ''ts'' \<noteq> None"
  then show "m \<in> set ms"
    by (auto simp: get_session_messages_def set_order_by_desc stored_def available_def
        dest!: query_items_Inr split: if_splits)
next
  assume "get_session_messages sid tid usr inc w = (Inr ms, w')"
  then show "sorted_wrt (\<lambda>a b. order_key (field b ''ts'') \<le> order_key (field a ''ts'')) ms"
    by (auto simp: get_session_messages_def sorted_order_by_desc
        dest!: query_items_Inr split: if_splits)
qed

theorem get_session_messages_superseded_witness:
  "field (mark_doc demo_m1) ''superseded'' = Some (JBool True)
   \<and> get_session_messages ''s1'' ''t1'' ''u1'' False demo_world = (Inr [demo_m2], demo_world)
   \<and> mark_doc demo_m1 \<notin> set [demo_m2]
   \<and> get_session_messages ''s1'' ''t1'' ''u1'' True demo_world
       = (Inr [demo_m2, mark_doc demo_m1], demo_world)
   \<and> mark_doc demo_m1 \<in> set (stored demo_world Messages)
   \<and> session_scope ''s1'' ''t1'' ''u1'' (mark_doc demo_m1)
   \<and> field (mark_doc demo_m1) ''ts'' \<noteq> None
   \<and> sorted_wrt (\<lambda>a b. order_key (field b ''ts'') \<le> order_key (field a ''ts''))
        [demo_m2, mark_doc demo_m1]"
proof -
  have sup: "field (mark_doc demo_m1) ''superseded'' = Some (JBool True)"
    by (rule field_mark_doc_superseded)
  have e1: "get_session_messages ''s1'' ''t1'' ''u1'' False demo_world = (Inr [demo_m2], demo_world)"
    by (simp add: get_session_messages_def demo_world_def demo_m1_def demo_m2_def demo_m3_def
        eval_defs)
  have e2: "get_session_messages ''s1'' ''t1'' ''u1'' True demo_world
       = (Inr [demo_m2, mark_doc demo_m1], demo_world)"
    by (simp add: get_session_messages_def demo_world_def demo_m1_def demo_m2_def demo_m3_def
        eval_defs)
  have e3: "mark_doc demo_m1 \<in> set (stored demo_world Messages)"
    by (simp add: demo_world_def stored_def with_items_def)
  have e4: "session_scope ''s1'' ''t1'' ''u1'' (mark_doc demo_m1)"
    by (simp add: demo_m1_def eval_defs)
  have e5: "field (mark_doc demo_m1) ''ts'' \<noteq> None"
    by (simp add: demo_m1_def eval_defs)
  note t1 = get_session_messages_superseded [OF sup, of "''s1''" "''t1''" "''u1''" demo_world
      "[demo_m2]" demo_world False]
  note t2 = get_session_messages_superseded [OF sup, of "''s1''" "''t1''" "''u1''" demo_world
      "[demo_m2, mark_doc demo_m1]" demo_world True]
  from t1 e1 have n1: "mark_doc demo_m1 \<notin> set [demo_m2]"
    by blast
  from t2 e2 have s2: "sorted_wrt (\<lambda>a b. order_key (field b ''ts'') \<le> order_key (field a ''ts''))
        [demo_m2, mark_doc demo_m1]"
    by blast
  from sup e1 n1 e2 e3 e4 e5 s2 show ?thesis
    by blast
qed

section \<open>Session lookup\<close>

text \<open>
  C9, as the code has it. \<^verbatim>\<open>get_session_by_id\<close> raises only when the handle of the
  sessions container is unset. With the handle set, an exception of the store during the
  query is caught and \<^verbatim>\<open>None\<close> is returned, the value that also stands for a lookup
  that matches nothing; a query that is answered returns the first matching session, or
  \<^verbatim>\<open>None\<close> when there is none.
\<close>

theorem get_session_by_id_cases:
  "(\<not> available w Sessions \<longrightarrow> get_session_by_id s t u w = (Inl CosmosNotAvailable, w))
   \<and> (available w Sessions \<and> faults w = True # fs \<longrightarrow>
        get_session_by_id s t u w = (Inr None, w\<lparr>faults := fs\<rparr>))
   \<and> (available w Sessions \<and> (faults w = [] \<or> faults w = False # fs) \<longrightarrow>
        fst (get_session_by_id s t u w) = Inr (find (session_scope s t u) (stored w Sessions)))"
  by (auto simp: get_session_by_id_def query_items_def sdk_call_def available_def stored_def
      find_filter split: list.splits option.splits)

theorem get_session_by_id_cases_witness:
  "\<not> available (unset Sessions empty_world) Sessions
   \<and> get_session_by_id ''s1'' ''t1'' ''u1'' (unset Sessions empty_world)
       = (Inl CosmosNotAvailable, unset Sessions empty_world)
   \<and> available (demo_sessions_world\<lparr>faults := [True]\<rparr>) Sessions
   \<and> get_session_by_id ''s1'' ''t1'' ''u1'' (demo_sessions_world\<lparr>faults := [True]\<rparr>)
       = (Inr None, demo_sessions_world\<lparr>faults := []\<rparr>)
   \<and> available demo_sessions_world Sessions
   \<and> faults demo_sessions_world = []
   \<and> fst (get_session_by_id ''s1'' ''t1'' ''u1'' demo_sessions_world) = Inr (Some demo_session)
   \<and> fst (get_session_by_id ''s9'' ''t1'' ''u1'' demo_sessions_world) = Inr None"
  using get_session_by_id_cases [where w = "unset Sessions empty_world" and s = "''s1''"
      and t = "''t1''" and u = "''u1''" and fs = "[]"]
    get_session_by_id_cases [where w = "demo_sessions_world\<lparr>faults := [True]\<rparr>" and s = "''s1''"
      and t = "''t1''" and u = "''u1''" and fs = "[]"]
    get_session_by_id_cases [where w = "demo_sessions_world" and s = "''s1''"
      and t = "''t1''" and u = "''u1''" and fs = "[]"]
    get_session_by_id_cases [where w = "demo_sessions_world" and s = "''s9''"
      and t = "''t1''" and u = "''u1''" and fs = "[]"]
  by (simp add: demo_sessions_world_def demo_session_def unset_def eval_defs)

text \<open>
  The session \<^verbatim>\<open>s1\<close> is stored, the store raises during the query, and the caller gets
  \<^verbatim>\<open>None\<close>, exactly what the lookup of the absent session \<^verbatim>\<open>s9\<close> gives.
\<close>

theorem get_session_by_id_failure_counterexample:
  "fst (get_session_by_id ''s1'' ''t1'' ''u1'' (demo_sessions_world\<lparr>faults := [True]\<rparr>)) = Inr None
   \<and> fst (get_session_by_id ''s9'' ''t1'' ''u1'' demo_sessions_world) = Inr None
   \<and> fst (get_session_by_id ''s1'' ''t1'' ''u1'' demo_sessions_world) = Inr (Some demo_session)"
  by (simp add: get_session_by_id_def demo_sessions_world_def demo_session_def eval_defs)

section \<open>Place search\<close>

text \<open>
  C1, as the code has it. Every place that \<^verbatim>\<open>query_places\<close> returns is the projection of
  a stored place whose \<^verbatim>\<open>geoScopeId\<close> is the lower-cased, stripped scope and whose
  \<^verbatim>\<open>VectorDistance\<close> from the query vector is strictly greater than 0.075 (the text reads
  \<^verbatim>\<open>VectorDistance(...) > 0.075\<close>, and under the cosine policy the value is a similarity
  score); the places come most similar first, that is in descending order of that score,
  and there are at most five. A returned place carries the ten selected fields of the
  stored place and no other, so not its embedding.
\<close>

theorem query_places_results:
  assumes "query_places str_lower str_strip vd vectors geo_scope_id place_type price_tier w
             = (Inr its, w')"
  shows "length its \<le> 5
       \<and> (\<forall>i\<in>set its. field i ''geoScopeId'' = Some (JStr (str_strip (str_lower geo_scope_id))))
       \<and> (\<exists>cs. its = map (select_fields place_fields) cs
             \<and> set cs \<subseteq> set (stored w Places)
             \<and> (\<forall>c\<in>set cs. field c ''geoScopeId'' = Some (JStr (str_strip (str_lower geo_scope_id)))
                    \<and> (\<exists>x. vector_distance vd vectors c = Some x \<and> x > 75 / 1000))
             \<and> sorted_wrt (\<lambda>a b. \<exists>x y. vector_distance vd vectors a = Some x
                    \<and> vector_distance vd vectors b = Some y \<and> y \<le> x) cs)
       \<and> (\<forall>c k. field (select_fields place_fields c) k
              = (if k \<in> set [''geoScopeId'', ''name'', ''type'', ''description'', ''tags'',
                               ''accessibility'', ''hours'', ''neighborhood'', ''priceTier'',
                               ''rating'']
                 then field c k else None))"
proof (cases "available w Places")
  case False
  with assms have "its = []"
    by (simp add: query_places_def)
  then show ?thesis by (simp add: field_select_fields place_fields_def)
next
  case True
  let ?g = "str_strip (str_lower geo_scope_id)"
  let ?P = "place_filter vd vectors ?g place_type price_tier"
  let ?k = "vector_distance vd vectors"
  let ?ranked = "most_similar_first Cosine ?k (filter ?P (stored w Places))"
  let ?cs = "take 5 ?ranked"
  from assms True have its: "its = map (select_fields place_fields) ?cs"
    by (auto simp: query_places_def normalize_scope_def SIMILARITY_METRIC_def
        split: prod.splits sum.splits dest!: query_items_Inr)
  have sub: "set ?cs \<subseteq> {c \<in> set (stored w Places). ?P c}"
    using set_take_subset [of 5 ?ranked] by (auto simp: set_most_similar_first)
  have far: "\<forall>c\<in>set ?cs. \<exists>x. ?k c = Some x \<and> x > 75 / 1000"
    using sub place_filter_holds by blast
  have geo: "\<forall>c\<in>set ?cs. field c ''geoScopeId'' = Some (JStr ?g)"
    using sub place_filter_holds by blast
  have "sorted_wrt (\<lambda>a b. ?k b \<le> ?k a) ?ranked"
    by (rule most_similar_first_cosine)
  then have "sorted_wrt (\<lambda>a b. ?k b \<le> ?k a) ?cs"
    by (rule sorted_wrt_take)
  with far have srt: "sorted_wrt (\<lambda>a b. \<exists>x y. ?k a = Some x \<and> ?k b = Some y \<and> y \<le> x) ?cs"
    by (intro sorted_Some_keys) blast+
  have len: "length its \<le> 5"
    by (simp add: its)
  have g2: "\<forall>i\<in>set its. field i ''geoScopeId'' = Some (JStr ?g)"
    using geo by (auto simp: its field_select_fields place_fields_def)
  have prj: "\<forall>c k. field (select_fields place_fields c) k
              = (if k \<in> set [''geoScopeId'', ''name'', ''type'', ''description'', ''tags'',
                               ''accessibility'', ''hours'', ''neighborhood'', ''priceTier'',
                               ''rating'']
                 then field c k else None)"
    by (simp add: field_select_fields place_fields_def)
  from len g2 its sub far geo srt have "length its \<le> 5
       \<and> (\<forall>i\<in>set its. field i ''geoScopeId'' = Some (JStr ?g))
       \<and> (\<exists>cs. its = map (select_fields place_fields) cs
             \<and> set cs \<subseteq> set (stored w Places)
             \<and> (\<forall>c\<in>set cs. field c ''geoScopeId'' = Some (JStr ?g)
                    \<and> (\<exists>x. ?k c = Some x \<and> x > 75 / 1000))
             \<and> sorted_wrt (\<lambda>a b. \<exists>x y. ?k a = Some x \<and> ?k b = Some y \<and> y \<le> x) cs)"
    by blast
  with prj show ?thesis
    by blast
qed

lemma demo_query_places:
  "query_places ascii_lower ascii_strip demo_vd [1] ''Paris '' (Some ''restaurant'') None
     demo_places_world
   = (Inr [select_fields place_fields (demo_place ''best'' ''paris'' (19 / 20)),
           select_fields place_fields (demo_place ''good'' ''paris'' (3 / 4)),
           select_fields place_fields (demo_place ''far'' ''paris'' (1 / 2)),
           select_fields place_fields (demo_place ''fair'' ''paris'' (1 / 4)),
           select_fields place_fields (demo_place ''okay'' ''paris'' (1 / 5))], demo_places_world)"
  by (simp add: place_eval_defs eval_defs)

lemma demo_place_projection:
  "select_fields place_fields (demo_place name geo x)
     = [(''geoScopeId'', JStr geo), (''name'', JStr name), (''type'', JStr ''restaurant''),
        (''priceTier'', JNum 2)]"
  by (simp add: select_fields_def place_fields_def demo_place_def field_def)

theorem query_places_results_witness:
  "query_places ascii_lower ascii_strip demo_vd [1] ''Paris '' (Some ''restaurant'') None
     demo_places_world
   = (Inr [[(''geoScopeId'', JStr ''paris''), (''name'', JStr ''best''),
            (''type'', JStr ''restaurant''), (''priceTier'', JNum 2)],
           [(''geoScopeId'', JStr ''paris''), (''name'', JStr ''good''),
            (''type'', JStr ''restaurant''), (''priceTier'', JNum 2)],
           [(''geoScopeId'', JStr ''paris''), (''name'', JStr ''far''),
            (''type'', JStr ''restaurant''), (''priceTier'', JNum 2)],
           [(''geoScopeId'', JStr ''paris''), (''name'', JStr ''fair''),
            (''type'', JStr ''restaurant''), (''priceTier'', JNum 2)],
           [(''geoScopeId'', JStr ''paris''), (''name'', JStr ''okay''),
            (''type'', JStr ''restaurant''), (''priceTier'', JNum 2)]], demo_places_world)
   \<and> ascii_strip (ascii_lower ''Paris '') = ''paris''
   \<and> length (stored demo_places_world Places) = 8
   \<and> demo_place ''mid'' ''paris'' (1 / 10) \<in> set (stored demo_places_world Places)
   \<and> vector_distance demo_vd [1] (demo_place ''mid'' ''paris'' (1 / 10)) = Some (1 / 10)
   \<and> vector_distance demo_vd [1] (demo_place ''best'' ''paris'' (19 / 20)) = Some (19 / 20)
   \<and> vector_distance demo_vd [1] (demo_place ''okay'' ''paris'' (1 / 5)) = Some (1 / 5)"
proof -
  have n: "ascii_strip (ascii_lower ''Paris '') = ''paris''"
    by (simp add: ascii_strip_def ascii_lower_def lower_char_def is_space_def)
  have st: "length (stored demo_places_world Places) = 8"
    "demo_place ''mid'' ''paris'' (1 / 10) \<in> set (stored demo_places_world Places)"
    by (simp_all add: demo_places_world_def stored_def with_items_def)
  have v: "vector_distance demo_vd [1] (demo_place ''mid'' ''paris'' (1 / 10)) = Some (1 / 10)"
    "vector_distance demo_vd [1] (demo_place ''best'' ''paris'' (19 / 20)) = Some (19 / 20)"
    "vector_distance demo_vd [1] (demo_place ''okay'' ''paris'' (1 / 5)) = Some (1 / 5)"
    by (simp_all add: vector_distance_def demo_vd_def demo_place_def field_def)
  from query_places_results [OF demo_query_places] demo_query_places n st v show ?thesis
    by (simp add: demo_place_projection)
qed

text \<open>
  Against C1 as stated: the place whose value is 1/2, beyond 0.075, is returned; the
  place whose value is 1/20, within 0.075, is stored in the same scope and is not; and
  the values of the answer, 19/20, 3/4, 1/2, 1/4, 1/5, descend.
\<close>

theorem query_places_threshold_counterexample:
  "query_places ascii_lower ascii_strip demo_vd [1] ''Paris '' (Some ''restaurant'') None
     demo_places_world
   = (Inr [select_fields place_fields (demo_place ''best'' ''paris'' (19 / 20)),
           select_fields place_fields (demo_place ''good'' ''paris'' (3 / 4)),
           select_fields place_fields (demo_place ''far'' ''paris'' (1 / 2)),
           select_fields place_fields (demo_place ''fair'' ''paris'' (1 / 4)),
           select_fields place_fields (demo_place ''okay'' ''paris'' (1 / 5))], demo_places_world)
   \<and> demo_place ''far'' ''paris'' (1 / 2) \<in> set (stored demo_places_world Places)
   \<and> vector_distance demo_vd [1] (demo_place ''far'' ''paris'' (1 / 2)) = Some (1 / 2)
   \<and> (75 / 1000 :: rat) < 1 / 2
   \<and> demo_place ''near'' ''paris'' (1 / 20) \<in> set (stored demo_places_world Places)
   \<and> vector_distance demo_vd [1] (demo_place ''near'' ''paris'' (1 / 20)) = Some (1 / 20)
   \<and> (1 / 20 :: rat) \<le> 75 / 1000
   \<and> vector_distance demo_vd [1] (demo_place ''best'' ''paris'' (19 / 20)) = Some (19 / 20)
   \<and> vector_distance demo_vd [1] (demo_place ''good'' ''paris'' (3 / 4)) = Some (3 / 4)
   \<and> (3 / 4 :: rat) < 19 / 20"
  by (simp add: place_eval_defs eval_defs)

text \<open>
  C5, as the code has it. With the handle of the places container set, an exception of
  the store during the query is raised again to the caller. With the handle unset,
  \<^verbatim>\<open>query_places\<close> logs and returns the empty list.
\<close>

theorem query_places_failure:
  "(available w Places \<and> faults w = True # fs \<longrightarrow>
      query_places str_lower str_strip vd vectors geo_scope_id place_type price_tier w
        = (Inl StoreFailure, w\<lparr>faults := fs\<rparr>))
   \<and> (\<not> available w Places \<longrightarrow>
      query_places str_lower str_strip vd vectors geo_scope_id place_type price_tier w
        = (Inr [], w))"
  by (simp add: query_places_def query_items_def sdk_call_def)

theorem query_places_failure_witness:
  "available (demo_places_world\<lparr>faults := [True]\<rparr>) Places
   \<and> query_places ascii_lower ascii_strip demo_vd [1] ''paris'' None None
        (demo_places_world\<lparr>faults := [True]\<rparr>)
       = (Inl StoreFailure, demo_places_world\<lparr>faults := []\<rparr>)
   \<and> \<not> available (unset Places demo_places_world) Places
   \<and> query_places ascii_lower ascii_strip demo_vd [1] ''paris'' None None
        (unset Places demo_places_world)
       = (Inr [], unset Places demo_places_world)"
  using query_places_failure [where w = "demo_places_world\<lparr>faults := [True]\<rparr>" and fs = "[]"
      and str_lower = ascii_lower and str_strip = ascii_strip
      and vd = demo_vd and vectors = "[1]" and geo_scope_id = "''paris''" and place_type = None
      and price_tier = None]
    query_places_failure [where w = "unset Places demo_places_world" and fs = "[]"
      and str_lower = ascii_lower and str_strip = ascii_strip
      and vd = demo_vd and vectors = "[1]" and geo_scope_id = "''paris''" and place_type = None
      and price_tier = None]
  by (simp add: demo_places_world_def unset_def eval_defs)

text \<open>The places container was never initialised: the caller gets an empty result.\<close>

theorem query_places_unset_counterexample:
  "\<not> available (unset Places demo_places_world) Places
   \<and> fst (query_places ascii_lower ascii_strip demo_vd [1] ''paris'' None None
        (unset Places demo_places_world)) = Inr []"
  by (simp add: query_places_def unset_def available_def)

section \<open>Frame lemmas\<close>

lemma stored_put_items_other: "c \<noteq> c' \<Longrightarrow> stored (put_items c ct ds w) c' = stored w c'"
  by (simp add: stored_def put_items_def)

lemma stored_faults_update [simp]: "stored (w\<lparr>faults := fs\<rparr>) c = stored w c"
  by (simp add: stored_def)

lemma available_faults_update [simp]: "available (w\<lparr>faults := fs\<rparr>) c = available w c"
  by (simp add: available_def)

lemma upsert_item_other:
  "c \<noteq> c' \<Longrightarrow> stored (snd (upsert_item c d w)) c' = stored w c'"
  by (auto simp: upsert_item_def sdk_call_def stored_put_items_other
      split: list.splits option.splits bool.splits)

lemma query_items_stored: "stored (snd (query_items c q w)) c' = stored w c'"
  by (auto simp: query_items_def sdk_call_def split: list.splits option.splits bool.splits)

lemma get_session_by_id_stored: "stored (snd (get_session_by_id s t u w)) c = stored w c"
proof (cases "query_items Sessions (filter (session_scope s t u)) w")
  case (Pair r w')
  with query_items_stored [of Sessions "filter (session_scope s t u)" w c]
  have "stored w' c = stored w c" by simp
  with Pair show ?thesis
    by (auto simp: get_session_by_id_def split: sum.splits list.splits)
qed

lemma update_session_activity_messages:
  "stored (snd (update_session_activity clock s t u w)) Messages = stored w Messages"
proof (cases "get_session_by_id s t u w")
  case (Pair r w')
  with get_session_by_id_stored [of s t u w Messages]
  have "stored w' Messages = stored w Messages" by simp
  with Pair show ?thesis
    by (auto simp: update_session_activity_def upsert_item_other
        split: sum.splits option.splits)
qed

lemma upsert_item_available: "available (snd (upsert_item c d w)) c' = available w c'"
  by (auto simp: upsert_item_def sdk_call_def put_items_def available_def
      split: list.splits option.splits bool.splits)

lemma upsert_item_ok:
  "containers w c = Some ct \<Longrightarrow> faults w = [] \<or> faults w = False # fs \<Longrightarrow>
   fst (upsert_item c d w) = Inr () \<and> d \<in> set (stored (snd (upsert_item c d w)) c)
   \<and> faults (snd (upsert_item c d w)) = tl (faults w)"
  by (auto simp: upsert_item_def sdk_call_def stored_def put_items_def upsert_doc_mem)

lemma upsert_item_sessions:
  "stored (snd (upsert_item Messages d w)) Sessions = stored w Sessions"
  by (simp add: upsert_item_other)

lemma get_session_by_id_outcome:
  "(\<not> available w Sessions \<longrightarrow> get_session_by_id s t u w = (Inl CosmosNotAvailable, w))
   \<and> (available w Sessions \<and> faults w = True # fs \<longrightarrow>
        get_session_by_id s t u w = (Inr None, w\<lparr>faults := fs\<rparr>))
   \<and> (available w Sessions \<and> (faults w = [] \<or> faults w = False # fs) \<longrightarrow>
        fst (get_session_by_id s t u w) = Inr (find (session_scope s t u) (stored w Sessions)))"
  by (auto simp: get_session_by_id_def query_items_def sdk_call_def available_def stored_def
      find_filter split: list.splits option.splits)

section \<open>Appending a message\<close>

text \<open>
  C6, as the code has it. Once the write of the message has succeeded, the message is
  stored whatever the session-activity update does afterwards. The update is skipped, and
  the \<^verbatim>\<open>messageId\<close> is returned, when the handle of the sessions container is unset,
  when the session lookup raises (\<^verbatim>\<open>get_session_by_id\<close> catches that) and when no
  session matches.
\<close>

theorem append_message_activity:
  assumes av: "available w Messages"
      and ok: "faults w = [] \<or> faults w = False # fs"
  shows "let r = append_message uid clock clock' sid tid usr role content tool_call embedding
                   kwords w;
             m = message_doc uid clock sid tid usr role content tool_call embedding kwords
         in m \<in> set (stored (snd r) Messages)
          \<and> field m ''id'' = Some (JStr (''msg_'' @ uid))
          \<and> field m ''messageId'' = Some (JStr (''msg_'' @ uid))
          \<and> session_scope sid tid usr m
          \<and> field m ''content'' = Some (JStr content)
          \<and> field m ''superseded'' = Some (JBool False)
          \<and> (\<not> available w Sessions \<longrightarrow> fst r = Inr (''msg_'' @ uid))
          \<and> (faults w = False # True # fs' \<longrightarrow> fst r = Inr (''msg_'' @ uid))
          \<and> (find (session_scope sid tid usr) (stored w Sessions) = None
               \<and> (faults w = [] \<or> faults w = [False] \<or> faults w = False # False # fs')
               \<longrightarrow> fst r = Inr (''msg_'' @ uid))"
proof -
  define r where
    "r = append_message uid clock clock' sid tid usr role content tool_call embedding kwords w"
  define m where
    "m = message_doc uid clock sid tid usr role content tool_call embedding kwords"
  from av obtain ct where ct: "containers w Messages = Some ct"
    by (auto simp: available_def)
  let ?u = "upsert_item Messages m w"
  let ?w1 = "snd ?u"
  from upsert_item_ok [OF ct ok, of m]
  have u: "fst ?u = Inr ()" and mem: "m \<in> set (stored ?w1 Messages)"
    and fl: "faults ?w1 = tl (faults w)"
    by simp_all
  let ?a = "update_session_activity clock' sid tid usr ?w1"
  have r: "r = (case ?a of (Inl e, w'') \<Rightarrow> (Inl e, w'') | (Inr u', w'') \<Rightarrow> (Inr (''msg_'' @ uid), w''))"
    using u av by (cases ?u) (simp add: r_def m_def append_message_def)
  have sndr: "snd r = snd ?a"
    unfolding r by (cases ?a) (auto split: sum.splits)
  have okr: "fst ?a = Inr () \<Longrightarrow> fst r = Inr (''msg_'' @ uid)"
    unfolding r by (cases ?a) (auto split: sum.splits)
  have 1: "m \<in> set (stored (snd r) Messages)"
    using mem by (simp add: sndr update_session_activity_messages)
  have avs: "available ?w1 Sessions = available w Sessions"
    by (rule upsert_item_available)
  have sts: "stored ?w1 Sessions = stored w Sessions"
    by (rule upsert_item_sessions)
  have 2: "\<not> available w Sessions \<longrightarrow> fst r = Inr (''msg_'' @ uid)"
  proof
    assume "\<not> available w Sessions"
    with avs have "\<not> available ?w1 Sessions" by simp
    then have "fst ?a = Inr ()"
      by (simp add: update_session_activity_def)
    then show "fst r = Inr (''msg_'' @ uid)" by (rule okr)
  qed
  have 3: "faults w = False # True # fs' \<longrightarrow> fst r = Inr (''msg_'' @ uid)"
  proof
    assume f: "faults w = False # True # fs'"
    with fl have "faults ?w1 = True # fs'" by simp
    with get_session_by_id_outcome [where w = ?w1 and s = sid and t = tid and u = usr and fs = fs']
    have "\<not> available ?w1 Sessions \<or> get_session_by_id sid tid usr ?w1 = (Inr None, ?w1\<lparr>faults := fs'\<rparr>)"
      by blast
    then have "fst ?a = Inr ()"
      by (auto simp: update_session_activity_def)
    then show "fst r = Inr (''msg_'' @ uid)" by (rule okr)
  qed
  have 4: "find (session_scope sid tid usr) (stored w Sessions) = None
            \<and> (faults w = [] \<or> faults w = [False] \<or> faults w = False # False # fs')
            \<longrightarrow> fst r = Inr (''msg_'' @ uid)"
  proof
    assume h: "find (session_scope sid tid usr) (stored w Sessions) = None
            \<and> (faults w = [] \<or> faults w = [False] \<or> faults w = False # False # fs')"
    with fl have "faults ?w1 = [] \<or> faults ?w1 = False # fs'" by auto
    with get_session_by_id_outcome [where w = ?w1 and s = sid and t = tid and u = usr and fs = fs'] h sts
    have "\<not> available ?w1 Sessions \<or> fst (get_session_by_id sid tid usr ?w1) = Inr None"
      by auto
    then have "fst ?a = Inr ()"
      by (cases "get_session_by_id sid tid usr ?w1") (auto simp: update_session_activity_def)
    then show "fst r = Inr (''msg_'' @ uid)" by (rule okr)
  qed
  have 5: "field m ''id'' = Some (JStr (''msg_'' @ uid))"
    "field m ''messageId'' = Some (JStr (''msg_'' @ uid))"
    "session_scope sid tid usr m"
    "field m ''content'' = Some (JStr content)"
    "field m ''superseded'' = Some (JBool False)"
    by (simp_all add: m_def message_doc_def field_def session_scope_def)
  from 1 2 3 4 5 show ?thesis
    unfolding Let_def r_def [symmetric] m_def [symmetric] by blast
qed

lemmas append_eval_defs =
  append_message_def update_session_activity_def get_session_by_id_def next_message_count_def
  demo_sessions_world_def demo_session_def

theorem append_message_activity_witness:
  "available (demo_sessions_world\<lparr>faults := [False, True]\<rparr>) Messages
   \<and> faults (demo_sessions_world\<lparr>faults := [False, True]\<rparr>) = False # True # []
   \<and> fst (append_message ''a9'' ''2025-01-02T00:00:00'' ''2025-01-02T00:00:01'' ''s1'' ''t1'' ''u1''
          ''user'' ''hi'' None None None (demo_sessions_world\<lparr>faults := [False, True]\<rparr>))
       = Inr ''msg_a9''
   \<and> message_doc ''a9'' ''2025-01-02T00:00:00'' ''s1'' ''t1'' ''u1'' ''user'' ''hi'' None None None
       \<in> set (stored (snd (append_message ''a9'' ''2025-01-02T00:00:00'' ''2025-01-02T00:00:01''
           ''s1'' ''t1'' ''u1'' ''user'' ''hi'' None None None
           (demo_sessions_world\<lparr>faults := [False, True]\<rparr>))) Messages)
   \<and> field (message_doc ''a9'' ''2025-01-02T00:00:00'' ''s1'' ''t1'' ''u1'' ''user'' ''hi''
        None None None) ''messageId'' = Some (JStr ''msg_a9'')
   \<and> field (message_doc ''a9'' ''2025-01-02T00:00:00'' ''s1'' ''t1'' ''u1'' ''user'' ''hi''
        None None None) ''content'' = Some (JStr ''hi'')"
  using append_message_activity [where w = "demo_sessions_world\<lparr>faults := [False, True]\<rparr>"
      and fs = "[True]" and fs' = "[]" and uid = "''a9''" and clock = "''2025-01-02T00:00:00''"
      and clock' = "''2025-01-02T00:00:01''" and sid = "''s1''" and tid = "''t1''" and usr = "''u1''"
      and role = "''user''" and content = "''hi''" and tool_call = None and embedding = None
      and kwords = None]
  by (simp add: Let_def demo_sessions_world_def available_def empty_world_def with_items_def)

text \<open>
  The session is found and its write-back raises: \<^verbatim>\<open>append_message\<close> raises too,
  after the message has been stored and with the session left as it was.
\<close>

theorem append_message_activity_counterexample:
  "fst (append_message ''a9'' ''2025-01-02T00:00:00'' ''2025-01-02T00:00:01'' ''s1'' ''t1'' ''u1''
          ''user'' ''hi'' None None None (demo_sessions_world\<lparr>faults := [False, False, True]\<rparr>))
       = Inl StoreFailure
   \<and> stored (snd (append_message ''a9'' ''2025-01-02T00:00:00'' ''2025-01-02T00:00:01''
           ''s1'' ''t1'' ''u1'' ''user'' ''hi'' None None None
           (demo_sessions_world\<lparr>faults := [False, False, True]\<rparr>))) Messages
       = [message_doc ''a9'' ''2025-01-02T00:00:00'' ''s1'' ''t1'' ''u1'' ''user'' ''hi'' None None None]
   \<and> stored (snd (append_message ''a9'' ''2025-01-02T00:00:00'' ''2025-01-02T00:00:01''
           ''s1'' ''t1'' ''u1'' ''user'' ''hi'' None None None
           (demo_sessions_world\<lparr>faults := [False, False, True]\<rparr>))) Sessions
       = [demo_session]"
  by (simp add: append_eval_defs eval_defs)

section \<open>Summaries and supersession\<close>

lemma by_message_id_find:
  "(case by_message_id m cs of [] \<Rightarrow> None | c # rest \<Rightarrow> Some c) = find (msg_with_id m) cs"
  by (simp add: find_filter by_message_id_def)

lemma mark_message_lookup_fails:
  "faults w = True # fs \<Longrightarrow> mark_message m w = w\<lparr>faults := fs\<rparr>"
  by (simp add: mark_message_def query_items_def sdk_call_def)

lemma mark_message_write_fails:
  assumes "containers w Messages = Some ct"
      and "faults w = False # True # fs"
  shows "mark_message m w = w\<lparr>faults := fs\<rparr> \<or> mark_message m w = w\<lparr>faults := True # fs\<rparr>"
    and "find (msg_with_id m) (items ct) = Some d \<Longrightarrow> mark_message m w = w\<lparr>faults := fs\<rparr>"
proof -
  show "mark_message m w = w\<lparr>faults := fs\<rparr> \<or> mark_message m w = w\<lparr>faults := True # fs\<rparr>"
    using assms
    by (auto simp: mark_message_def query_items_def sdk_call_def upsert_item_def
        split: list.splits)
  assume "find (msg_with_id m) (items ct) = Some d"
  then obtain rest where "by_message_id m (items ct) = d # rest"
    using by_message_id_find [of m "items ct"] by (auto split: list.splits)
  with assms show "mark_message m w = w\<lparr>faults := fs\<rparr>"
    by (auto simp: mark_message_def query_items_def sdk_call_def upsert_item_def)
qed

lemma mark_message_marks:
  assumes "containers w Messages = Some ct"
      and "faults w = [] \<or> faults w = [False] \<or> faults w = False # False # fs"
      and "find (msg_with_id m) (items ct) = Some d"
  shows "stored (mark_message m w) Messages = upsert_doc (pk_paths ct) (mark_doc d) (items ct)"
proof -
  from assms(3) obtain rest where "by_message_id m (items ct) = d # rest"
    using by_message_id_find [of m "items ct"] by (auto split: list.splits)
  with assms(1,2) show ?thesis
    by (auto simp: mark_message_def query_items_def sdk_call_def upsert_item_def put_items_def
        stored_def)
qed

lemma mark_message_other:
  "c \<noteq> Messages \<Longrightarrow> stored (mark_message m w) c = stored w c"
proof -
  assume c: "c \<noteq> Messages"
  obtain r w' where q: "query_items Messages (by_message_id m) w = (r, w')"
    by (cases "query_items Messages (by_message_id m) w")
  with query_items_stored [of Messages "by_message_id m" w c]
  have s: "stored w' c = stored w c" by simp
  show ?thesis
  proof (cases r)
    case (Inl e)
    with q s show ?thesis by (simp add: mark_message_def)
  next
    case (Inr ds)
    with q s c show ?thesis
      by (cases ds) (simp_all add: mark_message_def upsert_item_other)
  qed
qed

lemma mark_superseded_other:
  "c \<noteq> Messages \<Longrightarrow> stored (mark_superseded ms w) c = stored w c"
  by (induction ms arbitrary: w) (simp_all add: mark_message_other)

lemma mark_superseded_append:
  "mark_superseded (xs @ ys) w = mark_superseded ys (mark_superseded xs w)"
  by (induction xs arbitrary: w) simp_all

lemma field_mark_doc_ttl: "field (mark_doc d) ''ttl'' = Some (JNum 2592000)"
  by (simp add: mark_doc_def set_field_def field_def update_conv')

lemma stored_find_container:
  "find P (stored w c) = Some d \<Longrightarrow> \<exists>ct. containers w c = Some ct \<and> items ct = stored w c"
  by (auto simp: stored_def split: option.splits)

lemma mark_message_outcome:
  "(faults w = True # fs \<longrightarrow> mark_message m w = w\<lparr>faults := fs\<rparr>)
   \<and> (faults w = False # True # fs \<and> find (msg_with_id m) (stored w Messages) = Some d \<longrightarrow>
        mark_message m w = w\<lparr>faults := fs\<rparr>)
   \<and> ((faults w = [] \<or> faults w = [False] \<or> faults w = False # False # fs)
        \<and> find (msg_with_id m) (stored w Messages) = Some d \<longrightarrow>
        mark_doc d \<in> set (stored (mark_message m w) Messages))"
proof (intro conjI impI)
  assume "faults w = True # fs"
  then show "mark_message m w = w\<lparr>faults := fs\<rparr>"
    by (rule mark_message_lookup_fails)
next
  assume h: "faults w = False # True # fs \<and> find (msg_with_id m) (stored w Messages) = Some d"
  then obtain ct where "containers w Messages = Some ct" "items ct = stored w Messages"
    using stored_find_container by blast
  with h show "mark_message m w = w\<lparr>faults := fs\<rparr>"
    using mark_message_write_fails(2) [of w ct fs m d] by simp
next
  assume h: "(faults w = [] \<or> faults w = [False] \<or> faults w = False # False # fs)
        \<and> find (msg_with_id m) (stored w Messages) = Some d"
  then obtain ct where ct: "containers w Messages = Some ct" "items ct = stored w Messages"
    using stored_find_container by blast
  with h have "stored (mark_message m w) Messages = upsert_doc (pk_paths ct) (mark_doc d) (items ct)"
    using mark_message_marks [of w ct fs m d] by simp
  then show "mark_doc d \<in> set (stored (mark_message m w) Messages)"
    by (simp add: upsert_doc_mem)
qed

lemma supersedes_of_summary_doc:
  "supersedes_of (summary_doc uid clock sid tid usr summary_text span_arg embedding supersedes)
     = arg_list supersedes"
proof -
  have "List.map_filter (\<lambda>j. case j of JStr m \<Rightarrow> Some m | other \<Rightarrow> None) (map JStr xs) = xs" for xs
    by (induction xs) simp_all
  then show ?thesis
    by (simp add: supersedes_of_def summary_doc_def field_def str_array_def arg_list_def)
qed

lemma find_msg_with_id:
  "find (msg_with_id m) cs = Some d \<Longrightarrow> field d ''messageId'' = Some (JStr m) \<and> d \<in> set cs"
  by (auto simp: find_Some_iff msg_with_id_def)

lemma field_mark_doc_other:
  "k \<noteq> ''superseded'' \<Longrightarrow> k \<noteq> ''ttl'' \<Longrightarrow> field (mark_doc d) k = field d k"
  by (simp add: mark_doc_def set_field_def field_def update_conv')

lemma summary_doc_fields:
  "field (summary_doc uid clock sid tid usr summary_text span_arg embedding supersedes) ''id''
     = Some (JStr (''summary_'' @ uid))"
  "field (summary_doc uid clock sid tid usr summary_text span_arg embedding supersedes) ''summaryId''
     = Some (JStr (''summary_'' @ uid))"
  "session_scope sid tid usr
     (summary_doc uid clock sid tid usr summary_text span_arg embedding supersedes)"
  "field (summary_doc uid clock sid tid usr summary_text span_arg embedding supersedes) ''text''
     = Some (JStr summary_text)"
  "field (summary_doc uid clock sid tid usr summary_text span_arg embedding supersedes) ''createdAt''
     = Some (JStr (clock @ ''Z''))"
  by (simp_all add: summary_doc_def field_def session_scope_def)

text \<open>
  C3. With both handles set and the write of the summary succeeding, \<^verbatim>\<open>create_summary\<close>
  returns the \<^verbatim>\<open>summaryId\<close>, and the summary document, whose \<^verbatim>\<open>id\<close> and \<^verbatim>\<open>summaryId\<close>
  are the returned value and which carries the session, the text and the \<^verbatim>\<open>supersedes\<close>
  list of the call, is stored before the loop and after it, whatever faults the rest of
  the schedule holds. For every id \<open>m\<close> of \<^verbatim>\<open>supersedes\<close> the loop reaches \<open>m\<close> in the state
  \<open>wm\<close> left by the ids before it and goes on with the ids after it. In \<open>wm\<close>: a lookup
  that raises changes nothing; a write-back that raises changes nothing; when neither
  raises, the message found, whose \<^verbatim>\<open>messageId\<close> is \<open>m\<close>, is written back with
  \<^verbatim>\<open>superseded\<close> true, a ttl of 2592000 seconds and its other fields as they were.
\<close>

theorem create_summary_best_effort:
  assumes avs: "available w Summaries"
      and avm: "available w Messages"
      and ok: "faults w = [] \<or> faults w = False # fs"
  shows "let s = summary_doc uid clock sid tid usr summary_text span_arg embedding supersedes;
             r = create_summary uid clock sid tid usr summary_text span_arg embedding supersedes w;
             w1 = snd (upsert_item Summaries s w)
         in fst r = Inr (''summary_'' @ uid)
          \<and> s \<in> set (stored w1 Summaries)
          \<and> s \<in> set (stored (snd r) Summaries)
          \<and> field s ''id'' = Some (JStr (''summary_'' @ uid))
          \<and> field s ''summaryId'' = Some (JStr (''summary_'' @ uid))
          \<and> session_scope sid tid usr s
          \<and> field s ''text'' = Some (JStr summary_text)
          \<and> field s ''createdAt'' = Some (JStr (clock @ ''Z''))
          \<and> supersedes_of s = arg_list supersedes
          \<and> (\<forall>xs m ys. supersedes = Some (xs @ m # ys) \<longrightarrow>
               (let wm = mark_superseded xs w1
                in snd r = mark_superseded ys (mark_message m wm)
                 \<and> (\<forall>fs'. faults wm = True # fs' \<longrightarrow> mark_message m wm = wm\<lparr>faults := fs'\<rparr>)
                 \<and> (\<forall>fs' d. faults wm = False # True # fs'
                        \<and> find (msg_with_id m) (stored wm Messages) = Some d \<longrightarrow>
                      mark_message m wm = wm\<lparr>faults := fs'\<rparr>)
                 \<and> (\<forall>fs' d. (faults wm = [] \<or> faults wm = [False] \<or> faults wm = False # False # fs')
                        \<and> find (msg_with_id m) (stored wm Messages) = Some d \<longrightarrow>
                      mark_doc d \<in> set (stored (mark_message m wm) Messages)
                      \<and> field d ''messageId'' = Some (JStr m)
                      \<and> field (mark_doc d) ''superseded'' = Some (JBool True)
                      \<and> field (mark_doc d) ''ttl'' = Some (JNum 2592000)
                      \<and> (\<forall>k. k \<noteq> ''superseded'' \<and> k \<noteq> ''ttl'' \<longrightarrow>
                            field (mark_doc d) k = field d k))))"
proof -
  define s where "s = summary_doc uid clock sid tid usr summary_text span_arg embedding supersedes"
  define r where
    "r = create_summary uid clock sid tid usr summary_text span_arg embedding supersedes w"
  define w1 where "w1 = snd (upsert_item Summaries s w)"
  define ids where "ids = (case supersedes of None \<Rightarrow> [] | Some ms \<Rightarrow> ms)"
  from avs obtain ct where ct: "containers w Summaries = Some ct"
    by (auto simp: available_def)
  from upsert_item_ok [OF ct ok, of s]
  have u: "fst (upsert_item Summaries s w) = Inr ()" and mem: "s \<in> set (stored w1 Summaries)"
    by (simp_all add: w1_def)
  have r: "r = (Inr (''summary_'' @ uid), mark_superseded ids w1)"
    using u avs avm
    by (cases "upsert_item Summaries s w")
      (simp add: r_def s_def w1_def ids_def create_summary_def)
  have 1: "fst r = Inr (''summary_'' @ uid)"
    by (simp add: r)
  have 2: "s \<in> set (stored (snd r) Summaries)"
    using mem by (simp add: r mark_superseded_other)
  have 3: "\<forall>xs m ys. supersedes = Some (xs @ m # ys) \<longrightarrow>
               snd r = mark_superseded ys (mark_message m (mark_superseded xs w1))"
    by (simp add: r ids_def mark_superseded_append)
  have 4: "field s ''id'' = Some (JStr (''summary_'' @ uid))"
    "field s ''summaryId'' = Some (JStr (''summary_'' @ uid))"
    "session_scope sid tid usr s"
    "field s ''text'' = Some (JStr summary_text)"
    "field s ''createdAt'' = Some (JStr (clock @ ''Z''))"
    "supersedes_of s = arg_list supersedes"
    by (simp_all add: s_def summary_doc_fields supersedes_of_summary_doc)
  have 5: "(\<forall>fs'. faults wm = True # fs' \<longrightarrow> mark_message m wm = wm\<lparr>faults := fs'\<rparr>)
         \<and> (\<forall>fs' d. faults wm = False # True # fs'
                \<and> find (msg_with_id m) (stored wm Messages) = Some d \<longrightarrow>
              mark_message m wm = wm\<lparr>faults := fs'\<rparr>)
         \<and> (\<forall>fs' d. (faults wm = [] \<or> faults wm = [False] \<or> faults wm = False # False # fs')
                \<and> find (msg_with_id m) (stored wm Messages) = Some d \<longrightarrow>
              mark_doc d \<in> set (stored (mark_message m wm) Messages)
              \<and> field d ''messageId'' = Some (JStr m)
              \<and> field (mark_doc d) ''superseded'' = Some (JBool True)
              \<and> field (mark_doc d) ''ttl'' = Some (JNum 2592000)
              \<and> (\<forall>k. k \<noteq> ''superseded'' \<and> k \<noteq> ''ttl'' \<longrightarrow>
                    field (mark_doc d) k = field d k))" for m wm
    using mark_message_outcome [of wm _ m] find_msg_with_id [of m "stored wm Messages"]
      field_mark_doc_superseded field_mark_doc_ttl field_mark_doc_other
    by blast
  from 1 mem 2 3 4 5 show ?thesis
    unfolding Let_def s_def [symmetric] r_def [symmetric] w1_def [symmetric]
    by blast
qed

lemmas summary_eval_defs =
  create_summary_def summary_doc_def mark_message_def by_message_id_def msg_with_id_def
  demo_m1_def demo_m2_def demo_m3_def

lemma demo_create_summary:
  "create_summary ''x1'' ''2025-01-03T00:00:00'' ''s1'' ''t1'' ''u1'' ''greetings''
      [(''from'', ''msg_a1''), (''to'', ''msg_a2'')] None (Some [''msg_a1'', ''msg_a2''])
      (demo_fresh_world\<lparr>faults := [False, True]\<rparr>)
   = (Inr ''summary_x1'',
      with_items Summaries
        [summary_doc ''x1'' ''2025-01-03T00:00:00'' ''s1'' ''t1'' ''u1'' ''greetings''
           [(''from'', ''msg_a1''), (''to'', ''msg_a2'')] None (Some [''msg_a1'', ''msg_a2''])]
        (with_items Messages [demo_m1, mark_doc demo_m2, demo_m3] empty_world))"
  by (simp add: demo_fresh_world_def summary_eval_defs eval_defs fun_upd_twist)

theorem create_summary_best_effort_witness:
  "available (demo_fresh_world\<lparr>faults := [False, True]\<rparr>) Summaries
   \<and> available (demo_fresh_world\<lparr>faults := [False, True]\<rparr>) Messages
   \<and> faults (demo_fresh_world\<lparr>faults := [False, True]\<rparr>) = False # [True]
   \<and> fst (create_summary ''x1'' ''2025-01-03T00:00:00'' ''s1'' ''t1'' ''u1'' ''greetings''
        [(''from'', ''msg_a1''), (''to'', ''msg_a2'')] None (Some [''msg_a1'', ''msg_a2''])
        (demo_fresh_world\<lparr>faults := [False, True]\<rparr>)) = Inr ''summary_x1''
   \<and> stored (snd (create_summary ''x1'' ''2025-01-03T00:00:00'' ''s1'' ''t1'' ''u1''
            ''greetings'' [(''from'', ''msg_a1''), (''to'', ''msg_a2'')] None
            (Some [''msg_a1'', ''msg_a2'']) (demo_fresh_world\<lparr>faults := [False, True]\<rparr>))) Summaries
       = [[(''id'', JStr ''summary_x1''), (''summaryId'', JStr ''summary_x1''),
           (''sessionId'', JStr ''s1''), (''tenantId'', JStr ''t1''), (''userId'', JStr ''u1''),
           (''span'', JObj [(''from'', JStr ''msg_a1''), (''to'', JStr ''msg_a2'')]),
           (''text'', JStr ''greetings''), (''embedding'', JNull),
           (''createdAt'', JStr ''2025-01-03T00:00:00Z''),
           (''supersedes'', JArr [JStr ''msg_a1'', JStr ''msg_a2''])]]
   \<and> stored (snd (create_summary ''x1'' ''2025-01-03T00:00:00'' ''s1'' ''t1'' ''u1''
            ''greetings'' [(''from'', ''msg_a1''), (''to'', ''msg_a2'')] None
            (Some [''msg_a1'', ''msg_a2'']) (demo_fresh_world\<lparr>faults := [False, True]\<rparr>))) Messages
       = [demo_m1, mark_doc demo_m2, demo_m3]
   \<and> field demo_m1 ''messageId'' = Some (JStr ''msg_a1'')
   \<and> field demo_m1 ''superseded'' = Some (JBool False)
   \<and> field demo_m1 ''ttl'' = None
   \<and> field (mark_doc demo_m2) ''messageId'' = Some (JStr ''msg_a2'')
   \<and> field (mark_doc demo_m2) ''superseded'' = Some (JBool True)
   \<and> field (mark_doc demo_m2) ''ttl'' = Some (JNum 2592000)
   \<and> field (mark_doc demo_m2) ''content'' = Some (JStr ''again'')"
proof -
  have f: "field demo_m1 ''messageId'' = Some (JStr ''msg_a1'')"
    "field demo_m1 ''superseded'' = Some (JBool False)"
    "field demo_m1 ''ttl'' = None"
    "field (mark_doc demo_m2) ''messageId'' = Some (JStr ''msg_a2'')"
    "field (mark_doc demo_m2) ''superseded'' = Some (JBool True)"
    "field (mark_doc demo_m2) ''ttl'' = Some (JNum 2592000)"
    "field (mark_doc demo_m2) ''content'' = Some (JStr ''again'')"
    by (simp_all add: demo_m1_def demo_m2_def eval_defs)
  have d: "summary_doc ''x1'' ''2025-01-03T00:00:00'' ''s1'' ''t1'' ''u1'' ''greetings''
        [(''from'', ''msg_a1''), (''to'', ''msg_a2'')] None (Some [''msg_a1'', ''msg_a2''])
     = [(''id'', JStr ''summary_x1''), (''summaryId'', JStr ''summary_x1''),
           (''sessionId'', JStr ''s1''), (''tenantId'', JStr ''t1''), (''userId'', JStr ''u1''),
           (''span'', JObj [(''from'', JStr ''msg_a1''), (''to'', JStr ''msg_a2'')]),
           (''text'', JStr ''greetings''), (''embedding'', JNull),
           (''createdAt'', JStr ''2025-01-03T00:00:00Z''),
           (''supersedes'', JArr [JStr ''msg_a1'', JStr ''msg_a2''])]"
    by (simp add: summary_doc_def opt_vector_def str_array_def)
  note t = create_summary_best_effort [where w = "demo_fresh_world\<lparr>faults := [False, True]\<rparr>"
      and fs = "[True]" and uid = "''x1''" and clock = "''2025-01-03T00:00:00''" and sid = "''s1''"
      and tid = "''t1''" and usr = "''u1''" and summary_text = "''greetings''"
      and span_arg = "[(''from'', ''msg_a1''), (''to'', ''msg_a2'')]" and embedding = None
      and supersedes = "Some [''msg_a1'', ''msg_a2'']"]
  have a: "available (demo_fresh_world\<lparr>faults := [False, True]\<rparr>) Summaries"
    "available (demo_fresh_world\<lparr>faults := [False, True]\<rparr>) Messages"
    "faults (demo_fresh_world\<lparr>faults := [False, True]\<rparr>) = False # [True]"
    by (simp_all add: demo_fresh_world_def available_def empty_world_def with_items_def)
  from t a f demo_create_summary show ?thesis
    by (simp add: Let_def stored_def with_items_def d)
qed

lemma upsert_item_Inr:
  "upsert_item c d w = (Inr u, w') \<Longrightarrow>
     \<exists>ct. containers w c = Some ct \<and> stored w' c = upsert_doc (pk_paths ct) d (stored w c)"
  by (auto simp: upsert_item_def sdk_call_def put_items_def stored_def
      split: list.splits option.splits bool.splits)

lemma create_summary_Inr:
  assumes "create_summary uid clock sid tid usr summary_text span_arg embedding supersedes w
             = (Inr i, w')"
  shows "\<exists>ct. containers w Summaries = Some ct
           \<and> stored w' Summaries
              = upsert_doc (pk_paths ct)
                  (summary_doc uid clock sid tid usr summary_text span_arg embedding supersedes)
                  (stored w Summaries)"
proof -
  let ?s = "summary_doc uid clock sid tid usr summary_text span_arg embedding supersedes"
  obtain r w1 where u: "upsert_item Summaries ?s w = (r, w1)"
    by (cases "upsert_item Summaries ?s w")
  with assms obtain x where r: "r = Inr x"
    and w': "w' = mark_superseded (case supersedes of None \<Rightarrow> [] | Some ms \<Rightarrow> ms) w1"
    by (cases r) (auto simp: create_summary_def split: if_splits)
  from upsert_item_Inr [of Summaries ?s w x w1] u r
  obtain ct where "containers w Summaries = Some ct"
    and "stored w1 Summaries = upsert_doc (pk_paths ct) ?s (stored w Summaries)"
    by auto
  then show ?thesis
    by (auto simp: w' mark_superseded_other)
qed

text \<open>
  C2, as the code has it. \<^verbatim>\<open>create_summary\<close> stores the \<^verbatim>\<open>supersedes\<close> list it is
  given and compares it with nothing. After two successful calls both summaries are
  stored, each lists exactly what its caller passed, and the two lists are disjoint
  exactly when the callers' lists are.
\<close>

theorem create_summary_supersedes_as_given:
  assumes ca: "create_summary uida clocka sida tida usra texta spana emba supa w = (Inr ia, wa)"
      and cb: "create_summary uidb clockb sidb tidb usrb textb spanb embb supb wa = (Inr ib, wb)"
      and ne: "uida \<noteq> uidb"
  shows "let da = summary_doc uida clocka sida tida usra texta spana emba supa;
             db = summary_doc uidb clockb sidb tidb usrb textb spanb embb supb
         in da \<in> set (stored wb Summaries) \<and> db \<in> set (stored wb Summaries)
          \<and> supersedes_of da = arg_list supa \<and> supersedes_of db = arg_list supb
          \<and> (set (supersedes_of da) \<inter> set (supersedes_of db) = {}
               \<longleftrightarrow> set (arg_list supa) \<inter> set (arg_list supb) = {})"
proof -
  define da where "da = summary_doc uida clocka sida tida usra texta spana emba supa"
  define db where "db = summary_doc uidb clockb sidb tidb usrb textb spanb embb supb"
  from create_summary_Inr [OF ca] have a: "da \<in> set (stored wa Summaries)"
    by (auto simp: da_def upsert_doc_mem)
  from create_summary_Inr [OF cb] obtain ct :: container
    where b: "stored wb Summaries = upsert_doc (pk_paths ct) db (stored wa Summaries)"
    by (auto simp: db_def)
  have "field da ''id'' \<noteq> field db ''id''"
    using ne by (simp add: da_def db_def summary_doc_def field_def)
  then have "\<not> same_item (pk_paths ct) db da"
    by (auto simp: same_item_def)
  with a b have 1: "da \<in> set (stored wb Summaries)"
    by (simp add: upsert_doc_keeps)
  from b have 2: "db \<in> set (stored wb Summaries)"
    by (simp add: upsert_doc_mem)
  have 3: "supersedes_of da = arg_list supa" "supersedes_of db = arg_list supb"
    by (simp_all add: da_def db_def supersedes_of_summary_doc)
  from 1 2 3 show ?thesis
    unfolding Let_def da_def [symmetric] db_def [symmetric] by simp
qed

lemma demo_first_summary:
  "create_summary ''x1'' ''2025-01-03T00:00:00'' ''s1'' ''t1'' ''u1'' ''first''
     [(''from'', ''msg_a1''), (''to'', ''msg_a1'')] None (Some [''msg_a1'']) demo_fresh_world
   = (Inr ''summary_x1'', demo_after_first)"
  by (simp add: demo_fresh_world_def demo_after_first_def demo_sum_a_def summary_eval_defs
      eval_defs fun_upd_twist)

lemma demo_second_summary:
  "create_summary ''x2'' ''2025-01-04T00:00:00'' ''s1'' ''t1'' ''u1'' ''second''
     [(''from'', ''msg_a2''), (''to'', ''msg_a2'')] None (Some [''msg_a2'']) demo_after_first
   = (Inr ''summary_x2'',
      with_items Summaries [demo_sum_a, demo_sum_b]
        (with_items Messages [mark_doc demo_m1, mark_doc demo_m2, demo_m3] empty_world))"
  by (simp add: demo_after_first_def demo_sum_a_def demo_sum_b_def summary_eval_defs
      eval_defs fun_upd_twist)

theorem create_summary_supersedes_as_given_witness:
  "create_summary ''x1'' ''2025-01-03T00:00:00'' ''s1'' ''t1'' ''u1'' ''first''
     [(''from'', ''msg_a1''), (''to'', ''msg_a1'')] None (Some [''msg_a1'']) demo_fresh_world
   = (Inr ''summary_x1'', demo_after_first)
   \<and> create_summary ''x2'' ''2025-01-04T00:00:00'' ''s1'' ''t1'' ''u1'' ''second''
     [(''from'', ''msg_a2''), (''to'', ''msg_a2'')] None (Some [''msg_a2'']) demo_after_first
   = (Inr ''summary_x2'',
      with_items Summaries [demo_sum_a, demo_sum_b]
        (with_items Messages [mark_doc demo_m1, mark_doc demo_m2, demo_m3] empty_world))
   \<and> ''x1'' \<noteq> ''x2''
   \<and> supersedes_of demo_sum_a = [''msg_a1'']
   \<and> supersedes_of demo_sum_b = [''msg_a2'']
   \<and> set (supersedes_of demo_sum_a) \<inter> set (supersedes_of demo_sum_b) = {}"
proof -
  have ne: "''x1'' \<noteq> ''x2''" by simp
  from create_summary_supersedes_as_given [OF demo_first_summary demo_second_summary ne]
    demo_first_summary demo_second_summary
  show ?thesis
    by (simp add: Let_def arg_list_def demo_sum_a_def [symmetric] demo_sum_b_def [symmetric])
qed

text \<open>
  Two summaries of one session both list \<^verbatim>\<open>msg_a1\<close>; the second is created after the
  message was already marked by the first.
\<close>

theorem create_summary_double_claim_counterexample:
  "create_summary ''x1'' ''2025-01-03T00:00:00'' ''s1'' ''t1'' ''u1'' ''first''
     [(''from'', ''msg_a1''), (''to'', ''msg_a1'')] None (Some [''msg_a1'']) demo_fresh_world
   = (Inr ''summary_x1'', demo_after_first)
   \<and> fst (create_summary ''x2'' ''2025-01-04T00:00:00'' ''s1'' ''t1'' ''u1'' ''again''
     [(''from'', ''msg_a1''), (''to'', ''msg_a1'')] None (Some [''msg_a1'']) demo_after_first)
   = Inr ''summary_x2''
   \<and> stored (snd (create_summary ''x2'' ''2025-01-04T00:00:00'' ''s1'' ''t1'' ''u1'' ''again''
     [(''from'', ''msg_a1''), (''to'', ''msg_a1'')] None (Some [''msg_a1'']) demo_after_first))
       Summaries = [demo_sum_a, demo_sum_c]
   \<and> demo_sum_a \<noteq> demo_sum_c
   \<and> supersedes_of demo_sum_a = [''msg_a1'']
   \<and> supersedes_of demo_sum_c = [''msg_a1'']
   \<and> ''msg_a1'' \<in> set (supersedes_of demo_sum_a) \<inter> set (supersedes_of demo_sum_c)"
proof -
  have 1: "fst (create_summary ''x2'' ''2025-01-04T00:00:00'' ''s1'' ''t1'' ''u1'' ''again''
     [(''from'', ''msg_a1''), (''to'', ''msg_a1'')] None (Some [''msg_a1'']) demo_after_first)
   = Inr ''summary_x2''"
    by (simp add: demo_after_first_def demo_sum_a_def summary_eval_defs eval_defs)
  have 2: "stored (snd (create_summary ''x2'' ''2025-01-04T00:00:00'' ''s1'' ''t1'' ''u1'' ''again''
     [(''from'', ''msg_a1''), (''to'', ''msg_a1'')] None (Some [''msg_a1'']) demo_after_first))
       Summaries = [demo_sum_a, demo_sum_c]"
    by (simp add: demo_after_first_def demo_sum_a_def demo_sum_c_def summary_eval_defs eval_defs)
  have 3: "demo_sum_a \<noteq> demo_sum_c"
    by (simp add: demo_sum_a_def demo_sum_c_def summary_doc_def)
  have 4: "supersedes_of demo_sum_a = [''msg_a1'']" "supersedes_of demo_sum_c = [''msg_a1'']"
    by (simp_all add: demo_sum_a_def demo_sum_c_def supersedes_of_summary_doc arg_list_def)
  from demo_first_summary 1 2 3 4 show ?thesis
    by simp
qed

lemma upsert_item_frame:
  "c \<noteq> c' \<Longrightarrow> containers (snd (upsert_item c d w)) c' = containers w c'"
  by (auto simp: upsert_item_def sdk_call_def put_items_def
      split: list.splits option.splits bool.splits)

lemma upsert_item_no_faults: "faults w = [] \<Longrightarrow> faults (snd (upsert_item c d w)) = []"
  by (auto simp: upsert_item_def sdk_call_def put_items_def split: option.splits)

lemma mark_message_no_faults: "faults w = [] \<Longrightarrow> faults (mark_message m w) = []"
  by (auto simp: mark_message_def query_items_def sdk_call_def upsert_item_no_faults
      split: option.splits list.splits)

lemma mark_superseded_no_faults: "faults w = [] \<Longrightarrow> faults (mark_superseded ms w) = []"
  by (induction ms arbitrary: w) (simp_all add: mark_message_no_faults)

lemma find_first:
  "find P cs = Some d \<Longrightarrow> \<exists>pre post. cs = pre @ d # post \<and> P d \<and> (\<forall>e\<in>set pre. \<not> P e)"
proof (induction cs)
  case Nil
  then show ?case by simp
next
  case (Cons c cs)
  show ?case
  proof (cases "P c")
    case True
    with Cons.prems have "c = d" by simp
    with True have "c # cs = [] @ d # cs \<and> P d \<and> (\<forall>e\<in>set []. \<not> P e)" by simp
    then show ?thesis by blast
  next
    case False
    with Cons obtain pre post where "cs = pre @ d # post" "P d" "\<forall>e\<in>set pre. \<not> P e"
      by auto
    with False have "c # cs = (c # pre) @ d # post \<and> P d \<and> (\<forall>e\<in>set (c # pre). \<not> P e)"
      by simp
    then show ?thesis by blast
  qed
qed

text \<open>
  C10. With no fault, for every id \<open>m\<close> of \<^verbatim>\<open>supersedes\<close> the document that is marked is
  the first document of the whole Messages container whose \<^verbatim>\<open>messageId\<close> is \<open>m\<close>, at
  the time the loop reaches \<open>m\<close>: no document before it has that \<^verbatim>\<open>messageId\<close>, and the
  session, tenant and user of the summary do not enter. It is written back in place with
  \<^verbatim>\<open>superseded\<close> true, a ttl of 2592000 seconds and its other fields as they were. The
  examples after the theorem have a message of another session, tenant and user marked:
  once by naming its id, once because it precedes the summary's own message of the same
  id, which stays unmarked.
\<close>

theorem create_summary_marks_first_match:
  assumes avs: "available w Summaries"
      and avm: "available w Messages"
      and nf: "faults w = []"
  shows "let s = summary_doc uid clock sid tid usr summary_text span_arg embedding supersedes;
             r = create_summary uid clock sid tid usr summary_text span_arg embedding supersedes w;
             w1 = snd (upsert_item Summaries s w)
         in stored w1 Messages = stored w Messages
          \<and> (\<forall>xs m ys d. supersedes = Some (xs @ m # ys)
                \<and> find (msg_with_id m) (stored (mark_superseded xs w1) Messages) = Some d \<longrightarrow>
               (\<exists>ct. containers (mark_superseded xs w1) Messages = Some ct
                  \<and> stored (mark_message m (mark_superseded xs w1)) Messages
                     = upsert_doc (pk_paths ct) (mark_doc d)
                         (stored (mark_superseded xs w1) Messages))
               \<and> snd r = mark_superseded ys (mark_message m (mark_superseded xs w1))
               \<and> (\<exists>pre post. stored (mark_superseded xs w1) Messages = pre @ d # post
                     \<and> (\<forall>e\<in>set pre. field e ''messageId'' \<noteq> Some (JStr m)))
               \<and> field d ''messageId'' = Some (JStr m)
               \<and> mark_doc d \<in> set (stored (mark_message m (mark_superseded xs w1)) Messages)
               \<and> field (mark_doc d) ''superseded'' = Some (JBool True)
               \<and> field (mark_doc d) ''ttl'' = Some (JNum 2592000)
               \<and> (\<forall>k. k \<noteq> ''superseded'' \<and> k \<noteq> ''ttl'' \<longrightarrow> field (mark_doc d) k = field d k))"
proof -
  define s where "s = summary_doc uid clock sid tid usr summary_text span_arg embedding supersedes"
  define r where
    "r = create_summary uid clock sid tid usr summary_text span_arg embedding supersedes w"
  define w1 where "w1 = snd (upsert_item Summaries s w)"
  define ids where "ids = (case supersedes of None \<Rightarrow> [] | Some ms \<Rightarrow> ms)"
  from avs obtain ct where ct: "containers w Summaries = Some ct"
    by (auto simp: available_def)
  from nf have ok: "faults w = [] \<or> faults w = False # []" by simp
  from upsert_item_ok [OF ct ok, of s]
  have u: "fst (upsert_item Summaries s w) = Inr ()"
    by simp
  have r: "r = (Inr (''summary_'' @ uid), mark_superseded ids w1)"
    using u avs avm
    by (cases "upsert_item Summaries s w")
      (simp add: r_def s_def w1_def ids_def create_summary_def)
  have f1: "faults w1 = []"
    using nf by (simp add: w1_def upsert_item_no_faults)
  have m1: "stored w1 Messages = stored w Messages"
    by (simp add: w1_def upsert_item_other)
  have step: "(\<exists>ct. containers (mark_superseded xs w1) Messages = Some ct
                  \<and> stored (mark_message m (mark_superseded xs w1)) Messages
                     = upsert_doc (pk_paths ct) (mark_doc d)
                         (stored (mark_superseded xs w1) Messages))
               \<and> snd r = mark_superseded ys (mark_message m (mark_superseded xs w1))
               \<and> (\<exists>pre post. stored (mark_superseded xs w1) Messages = pre @ d # post
                     \<and> (\<forall>e\<in>set pre. field e ''messageId'' \<noteq> Some (JStr m)))
               \<and> field d ''messageId'' = Some (JStr m)
               \<and> mark_doc d \<in> set (stored (mark_message m (mark_superseded xs w1)) Messages)
               \<and> field (mark_doc d) ''superseded'' = Some (JBool True)
               \<and> field (mark_doc d) ''ttl'' = Some (JNum 2592000)
               \<and> (\<forall>k. k \<noteq> ''superseded'' \<and> k \<noteq> ''ttl'' \<longrightarrow> field (mark_doc d) k = field d k)"
    if h: "supersedes = Some (xs @ m # ys)"
      "find (msg_with_id m) (stored (mark_superseded xs w1) Messages) = Some d"
    for xs m ys d
  proof -
    let ?wm = "mark_superseded xs w1"
    have fm: "faults ?wm = []"
      using f1 by (rule mark_superseded_no_faults)
    from h(2) obtain cm where cm: "containers ?wm Messages = Some cm" "items cm = stored ?wm Messages"
      using stored_find_container by blast
    from fm have okm: "faults ?wm = [] \<or> faults ?wm = [False] \<or> faults ?wm = False # False # []"
      by simp
    from mark_message_marks [OF cm(1) okm, of m d] h(2) cm(2)
    have st: "stored (mark_message m ?wm) Messages
            = upsert_doc (pk_paths cm) (mark_doc d) (stored ?wm Messages)"
      by simp
    with cm(1) have a: "\<exists>ct. containers ?wm Messages = Some ct
                  \<and> stored (mark_message m ?wm) Messages
                     = upsert_doc (pk_paths ct) (mark_doc d) (stored ?wm Messages)"
      by blast
    have b: "snd r = mark_superseded ys (mark_message m ?wm)"
      using h(1) by (simp add: r ids_def mark_superseded_append)
    from find_first [OF h(2)]
    have c: "\<exists>pre post. stored ?wm Messages = pre @ d # post
                     \<and> (\<forall>e\<in>set pre. field e ''messageId'' \<noteq> Some (JStr m))"
      by (auto simp: msg_with_id_def)
    from find_msg_with_id [OF h(2)] have e: "field d ''messageId'' = Some (JStr m)"
      by simp
    from st have g: "mark_doc d \<in> set (stored (mark_message m ?wm) Messages)"
      by (simp add: upsert_doc_mem)
    from a b c e g field_mark_doc_superseded [of d] field_mark_doc_ttl [of d]
      field_mark_doc_other [of _ d]
    show ?thesis by blast
  qed
  from m1 step show ?thesis
    unfolding Let_def s_def [symmetric] r_def [symmetric] w1_def [symmetric] by blast
qed

lemma demo_shared_summary:
  "create_summary ''x1'' ''2025-01-03T00:00:00'' ''s1'' ''t1'' ''u1'' ''first''
     [(''from'', ''msg_a1''), (''to'', ''msg_a1'')] None (Some [''msg_a1'']) demo_shared_world
   = (Inr ''summary_x1'',
      with_items Summaries [demo_sum_a]
        (with_items Messages [mark_doc demo_m4, demo_m1] empty_world))"
  by (simp add: demo_shared_world_def demo_m4_def demo_sum_a_def summary_eval_defs
      eval_defs fun_upd_twist)

lemma demo_other_session_summary:
  "create_summary ''x1'' ''2025-01-03T00:00:00'' ''s1'' ''t1'' ''u1'' ''theirs''
     [(''from'', ''msg_b1''), (''to'', ''msg_b1'')] None (Some [''msg_b1'']) demo_fresh_world
   = (Inr ''summary_x1'',
      with_items Summaries [demo_sum_d]
        (with_items Messages [demo_m1, demo_m2, mark_doc demo_m3] empty_world))"
  by (simp add: demo_fresh_world_def demo_sum_d_def summary_eval_defs eval_defs fun_upd_twist)

theorem create_summary_marks_first_match_witness:
  "available demo_fresh_world Summaries
   \<and> available demo_fresh_world Messages
   \<and> faults demo_fresh_world = []
   \<and> stored demo_fresh_world Messages = [demo_m1, demo_m2, demo_m3]
   \<and> find (msg_with_id ''msg_b1'') (stored demo_fresh_world Messages) = Some demo_m3
   \<and> field demo_m1 ''messageId'' = Some (JStr ''msg_a1'')
   \<and> field demo_m2 ''messageId'' = Some (JStr ''msg_a2'')
   \<and> field demo_m3 ''messageId'' = Some (JStr ''msg_b1'')
   \<and> session_scope ''s2'' ''t2'' ''u2'' demo_m3
   \<and> \<not> session_scope ''s1'' ''t1'' ''u1'' demo_m3
   \<and> field demo_m3 ''superseded'' = Some (JBool False)
   \<and> field demo_m3 ''ttl'' = None
   \<and> stored (snd (create_summary ''x1'' ''2025-01-03T00:00:00'' ''s1'' ''t1'' ''u1'' ''theirs''
        [(''from'', ''msg_b1''), (''to'', ''msg_b1'')] None (Some [''msg_b1''])
        demo_fresh_world)) Messages
      = [demo_m1, demo_m2, mark_doc demo_m3]
   \<and> field (mark_doc demo_m3) ''superseded'' = Some (JBool True)
   \<and> field (mark_doc demo_m3) ''ttl'' = Some (JNum 2592000)
   \<and> session_scope ''s2'' ''t2'' ''u2'' (mark_doc demo_m3)
   \<and> available demo_shared_world Summaries
   \<and> available demo_shared_world Messages
   \<and> faults demo_shared_world = []
   \<and> find (msg_with_id ''msg_a1'') (stored demo_shared_world Messages) = Some demo_m4
   \<and> \<not> session_scope ''s1'' ''t1'' ''u1'' demo_m4
   \<and> session_scope ''s1'' ''t1'' ''u1'' demo_m1
   \<and> msg_with_id ''msg_a1'' demo_m1
   \<and> stored (snd (create_summary ''x1'' ''2025-01-03T00:00:00'' ''s1'' ''t1'' ''u1'' ''first''
        [(''from'', ''msg_a1''), (''to'', ''msg_a1'')] None (Some [''msg_a1''])
        demo_shared_world)) Messages
      = [mark_doc demo_m4, demo_m1]
   \<and> field demo_m1 ''superseded'' = Some (JBool False)"
proof -
  have a: "available demo_shared_world Summaries" "available demo_shared_world Messages"
    "faults demo_shared_world = []"
    by (simp_all add: demo_shared_world_def eval_defs)
  have b: "available demo_fresh_world Summaries" "available demo_fresh_world Messages"
    "faults demo_fresh_world = []"
    by (simp_all add: demo_fresh_world_def eval_defs)
  have st: "stored demo_fresh_world Messages = [demo_m1, demo_m2, demo_m3]"
    by (simp add: demo_fresh_world_def stored_def with_items_def)
  have f: "find (msg_with_id ''msg_a1'') (stored demo_shared_world Messages) = Some demo_m4"
    by (simp add: demo_shared_world_def demo_m4_def demo_m1_def msg_with_id_def eval_defs)
  have g: "find (msg_with_id ''msg_b1'') (stored demo_fresh_world Messages) = Some demo_m3"
    by (simp add: demo_fresh_world_def demo_m1_def demo_m2_def demo_m3_def msg_with_id_def
        eval_defs)
  have sc: "\<not> session_scope ''s1'' ''t1'' ''u1'' demo_m4" "session_scope ''s1'' ''t1'' ''u1'' demo_m1"
    "msg_with_id ''msg_a1'' demo_m1" "field demo_m1 ''superseded'' = Some (JBool False)"
    by (simp_all add: demo_m4_def demo_m1_def msg_with_id_def eval_defs)
  have sd: "field demo_m1 ''messageId'' = Some (JStr ''msg_a1'')"
    "field demo_m2 ''messageId'' = Some (JStr ''msg_a2'')"
    "field demo_m3 ''messageId'' = Some (JStr ''msg_b1'')"
    "session_scope ''s2'' ''t2'' ''u2'' demo_m3"
    "\<not> session_scope ''s1'' ''t1'' ''u1'' demo_m3"
    "field demo_m3 ''superseded'' = Some (JBool False)"
    "field demo_m3 ''ttl'' = None"
    "field (mark_doc demo_m3) ''superseded'' = Some (JBool True)"
    "field (mark_doc demo_m3) ''ttl'' = Some (JNum 2592000)"
    "session_scope ''s2'' ''t2'' ''u2'' (mark_doc demo_m3)"
    by (simp_all add: demo_m1_def demo_m2_def demo_m3_def eval_defs)
  note t = create_summary_marks_first_match [OF a, where uid = "''x1''"
      and clock = "''2025-01-03T00:00:00''" and sid = "''s1''" and tid = "''t1''" and usr = "''u1''"
      and summary_text = "''first''" and span_arg = "[(''from'', ''msg_a1''), (''to'', ''msg_a1'')]"
      and embedding = None and supersedes = "Some [''msg_a1'']"]
  note t' = create_summary_marks_first_match [OF b, where uid = "''x1''"
      and clock = "''2025-01-03T00:00:00''" and sid = "''s1''" and tid = "''t1''" and usr = "''u1''"
      and summary_text = "''theirs''" and span_arg = "[(''from'', ''msg_b1''), (''to'', ''msg_b1'')]"
      and embedding = None and supersedes = "Some [''msg_b1'']"]
  have r1: "stored (snd (create_summary ''x1'' ''2025-01-03T00:00:00'' ''s1'' ''t1'' ''u1'' ''theirs''
        [(''from'', ''msg_b1''), (''to'', ''msg_b1'')] None (Some [''msg_b1''])
        demo_fresh_world)) Messages
      = [demo_m1, demo_m2, mark_doc demo_m3]"
    using t' demo_other_session_summary by (simp add: stored_def with_items_def)
  have r2: "stored (snd (create_summary ''x1'' ''2025-01-03T00:00:00'' ''s1'' ''t1'' ''u1'' ''first''
        [(''from'', ''msg_a1''), (''to'', ''msg_a1'')] None (Some [''msg_a1''])
        demo_shared_world)) Messages
      = [mark_doc demo_m4, demo_m1]"
    using t demo_shared_summary by (simp add: stored_def with_items_def)
  from a b st f g sc sd r1 r2 show ?thesis
    by simp
qed

section \<open>Memory retrieval\<close>

lemma memory_filter_holds:
  "memory_filter usr tid types min_salience c \<Longrightarrow>
     field c ''userId'' = Some (JStr usr) \<and> field c ''tenantId'' = Some (JStr tid)
     \<and> (\<exists>s. field c ''salience'' = Some (JNum s) \<and> min_salience \<le> s)
     \<and> (types \<noteq> [] \<longrightarrow> (\<exists>t\<in>set types. field c ''memoryType'' = Some (JStr t)))"
  by (auto simp: memory_filter_def salience_at_least_def split: option.splits json.splits)

lemma query_memories_Inr:
  assumes "query_memories store_reads usr tid memory_types min_salience w = (Inr ms, w')"
      and "list_all plain_name (arg_list memory_types)"
  shows "ms = [] \<or> ms = take 5 (order_by_desc ''createdAt''
            (filter (memory_filter usr tid (arg_list memory_types) min_salience)
               (stored w Memories)))"
  using assms
  by (auto simp: query_memories_def Let_def arg_list_def split: if_splits dest!: query_items_Inr)

lemma insort_key_map:
  "insort_key k (f x) (map f xs) = map f (insort_key (\<lambda>y. k (f y)) x xs)"
  by (induction xs) simp_all

lemma sort_key_map: "sort_key k (map f xs) = map f (sort_key (\<lambda>y. k (f y)) xs)"
  by (induction xs) (simp_all add: insort_key_map)

lemma field_delete: "k' \<noteq> k \<Longrightarrow> field (AList.delete k d) k' = field d k'"
  by (simp add: field_def delete_conv)

lemma memory_filter_delete:
  "memory_filter usr tid types min_salience (AList.delete ''embedding'' c)
     = memory_filter usr tid types min_salience c"
  by (simp add: memory_filter_def salience_at_least_def field_delete)

lemma order_by_desc_delete:
  "order_by_desc ''createdAt'' (map (AList.delete ''embedding'') cs)
     = map (AList.delete ''embedding'') (order_by_desc ''createdAt'' cs)"
  by (simp add: order_by_desc_def filter_map comp_def field_delete rev_map sort_key_map)

lemma memories_query_delete:
  "take 5 (order_by_desc ''createdAt''
      (filter (memory_filter usr tid types min_salience) (map (AList.delete ''embedding'') cs)))
   = map (AList.delete ''embedding'')
       (take 5 (order_by_desc ''createdAt'' (filter (memory_filter usr tid types min_salience) cs)))"
  by (simp add: filter_map comp_def memory_filter_delete order_by_desc_delete take_map)

lemma query_memories_without_embeddings:
  assumes "query_memories store_reads usr tid memory_types min_salience w = (Inr ms, w')"
      and "list_all plain_name (arg_list memory_types)"
  shows "fst (query_memories store_reads usr tid memory_types min_salience (without_embeddings w))
           = Inr (map (AList.delete ''embedding'') ms)"
  using assms
  by (auto simp: query_memories_def Let_def query_items_def sdk_call_def available_def
      without_embeddings_def memories_query_delete arg_list_def
      split: if_splits list.splits option.splits bool.splits)

text \<open>
  The document that \<^verbatim>\<open>store_memory\<close> writes has \<^verbatim>\<open>lastUsedAt\<close> and \<^verbatim>\<open>extractedAt\<close>
  but no \<^verbatim>\<open>createdAt\<close>, the property \<^verbatim>\<open>query_memories\<close> sorts on.
\<close>

lemma memory_doc_no_createdAt:
  "field (memory_doc uid clock user_id tenant_id memory_type text facets salience justification
            embedding) ''createdAt'' = None"
  by (simp add: memory_doc_def field_def)

text \<open>
  C8, as the code has it. For type names without a quote or a backslash,
  \<^verbatim>\<open>query_memories\<close> returns at most five stored memories of the user and tenant, each
  carrying a \<^verbatim>\<open>createdAt\<close> and a salience of at least \<^verbatim>\<open>min_salience\<close> and, when
  \<^verbatim>\<open>memory_types\<close> is a non-empty list, with a \<^verbatim>\<open>memoryType\<close> in that list, in
  descending order of \<^verbatim>\<open>createdAt\<close>. Removing every stored embedding changes nothing in
  the answer but the removed field: no embedding is consulted.
\<close>

theorem query_memories_results:
  assumes "query_memories store_reads usr tid memory_types min_salience w = (Inr ms, w')"
      and "list_all plain_name (arg_list memory_types)"
  shows "length ms \<le> 5
       \<and> (\<forall>m\<in>set ms. m \<in> set (stored w Memories)
             \<and> field m ''userId'' = Some (JStr usr)
             \<and> field m ''tenantId'' = Some (JStr tid)
             \<and> (\<exists>s. field m ''salience'' = Some (JNum s) \<and> min_salience \<le> s)
             \<and> (\<forall>ts. memory_types = Some ts \<and> ts \<noteq> [] \<longrightarrow>
                   (\<exists>t\<in>set ts. field m ''memoryType'' = Some (JStr t)))
             \<and> field m ''createdAt'' \<noteq> None)
       \<and> sorted_wrt (\<lambda>a b. order_key (field b ''createdAt'') \<le> order_key (field a ''createdAt'')) ms
       \<and> fst (query_memories store_reads usr tid memory_types min_salience (without_embeddings w))
           = Inr (map (AList.delete ''embedding'') ms)"
proof -
  let ?P = "memory_filter usr tid (arg_list memory_types) min_salience"
  let ?all = "order_by_desc ''createdAt'' (filter ?P (stored w Memories))"
  from query_memories_Inr [OF assms] have ms: "ms = [] \<or> ms = take 5 ?all" .
  then have len: "length ms \<le> 5" by auto
  from ms have sub: "set ms \<subseteq> {c \<in> set (stored w Memories). ?P c}"
    using set_take_subset [of 5 ?all] by (auto simp: set_order_by_desc)
  have srt: "sorted_wrt (\<lambda>a b. order_key (field b ''createdAt'') \<le> order_key (field a ''createdAt'')) ms"
    using ms sorted_order_by_desc [of "''createdAt''" "filter ?P (stored w Memories)"]
    by auto
  from ms have def: "\<forall>m\<in>set ms. field m ''createdAt'' \<noteq> None"
    using set_take_subset [of 5 ?all] by (auto simp: set_order_by_desc)
  have each: "m \<in> set (stored w Memories)
             \<and> field m ''userId'' = Some (JStr usr)
             \<and> field m ''tenantId'' = Some (JStr tid)
             \<and> (\<exists>s. field m ''salience'' = Some (JNum s) \<and> min_salience \<le> s)
             \<and> (\<forall>ts. memory_types = Some ts \<and> ts \<noteq> [] \<longrightarrow>
                   (\<exists>t\<in>set ts. field m ''memoryType'' = Some (JStr t)))
             \<and> field m ''createdAt'' \<noteq> None" if "m \<in> set ms" for m
  proof -
    from that sub have "m \<in> set (stored w Memories)" and "?P m" by auto
    with memory_filter_holds [of usr tid "arg_list memory_types" min_salience m] def that
    show ?thesis by (auto simp: arg_list_def)
  qed
  from len each srt query_memories_without_embeddings [OF assms] show ?thesis by blast
qed

lemmas memory_eval_defs =
  query_memories_def demo_memories_world_def demo_memory_def memory_filter_def
  salience_at_least_def plain_name_def
  mem_a_def mem_b_def mem_c_def mem_d_def mem_e_def mem_f_def mem_g_def mem_h_def mem_other_def
  mem_stored_def memory_doc_def memory_ttl_def

lemma demo_query_memories:
  "query_memories demo_store_reads ''u1'' ''t1'' (Some [''episodic'', ''declarative'']) (1 / 5)
     demo_memories_world
   = (Inr [mem_h, mem_f, mem_e, mem_d, mem_b], demo_memories_world)"
  by (simp add: memory_eval_defs eval_defs)

theorem query_memories_results_witness:
  "query_memories demo_store_reads ''u1'' ''t1'' (Some [''episodic'', ''declarative'']) (1 / 5)
     demo_memories_world
   = (Inr [mem_h, mem_f, mem_e, mem_d, mem_b], demo_memories_world)
   \<and> list_all plain_name (arg_list (Some [''episodic'', ''declarative'']))
   \<and> stored demo_memories_world Memories
       = [mem_c, mem_a, mem_other, mem_f, mem_stored, mem_b, mem_h, mem_g, mem_e, mem_d]
   \<and> field mem_stored ''userId'' = Some (JStr ''u1'')
   \<and> field mem_stored ''memoryType'' = Some (JStr ''episodic'')
   \<and> field mem_stored ''salience'' = Some (JNum (9 / 10))
   \<and> field mem_stored ''extractedAt'' = Some (JStr ''2025-10-01T00:00:00Z'')
   \<and> field mem_stored ''createdAt'' = None
   \<and> map (\<lambda>m. field m ''createdAt'') [mem_h, mem_f, mem_e, mem_d, mem_b]
       = [Some (JStr ''2025-09-01T00:00:00''), Some (JStr ''2025-06-01T00:00:00''),
          Some (JStr ''2025-05-01T00:00:00''), Some (JStr ''2025-04-01T00:00:00''),
          Some (JStr ''2025-02-01T00:00:00'')]
   \<and> map (\<lambda>m. field m ''memoryType'') [mem_h, mem_f, mem_e, mem_d, mem_b]
       = [Some (JStr ''episodic''), Some (JStr ''episodic''), Some (JStr ''declarative''),
          Some (JStr ''episodic''), Some (JStr ''episodic'')]
   \<and> field mem_a ''createdAt'' = Some (JStr ''2025-01-01T00:00:00'')
   \<and> field mem_a ''memoryType'' = Some (JStr ''declarative'')
   \<and> field mem_a ''salience'' = Some (JNum (9 / 10))
   \<and> field mem_g ''memoryType'' = Some (JStr ''procedural'')
   \<and> field mem_c ''salience'' = Some (JNum (1 / 10))
   \<and> field mem_other ''userId'' = Some (JStr ''u2'')
   \<and> fst (query_memories demo_store_reads ''u1'' ''t1'' (Some [''episodic'', ''declarative''])
        (1 / 5) (without_embeddings demo_memories_world))
       = Inr (map (AList.delete ''embedding'') [mem_h, mem_f, mem_e, mem_d, mem_b])"
proof -
  have p: "list_all plain_name (arg_list (Some [''episodic'', ''declarative'']))"
    by (simp add: arg_list_def plain_name_def)
  have st: "stored demo_memories_world Memories
       = [mem_c, mem_a, mem_other, mem_f, mem_stored, mem_b, mem_h, mem_g, mem_e, mem_d]"
    by (simp add: demo_memories_world_def stored_def with_items_def)
  have ms: "field mem_stored ''userId'' = Some (JStr ''u1'')"
    "field mem_stored ''memoryType'' = Some (JStr ''episodic'')"
    "field mem_stored ''salience'' = Some (JNum (9 / 10))"
    "field mem_stored ''extractedAt'' = Some (JStr ''2025-10-01T00:00:00Z'')"
    "field mem_stored ''createdAt'' = None"
    by (simp_all add: mem_stored_def memory_doc_def field_def)
  have f: "map (\<lambda>m. field m ''createdAt'') [mem_h, mem_f, mem_e, mem_d, mem_b]
       = [Some (JStr ''2025-09-01T00:00:00''), Some (JStr ''2025-06-01T00:00:00''),
          Some (JStr ''2025-05-01T00:00:00''), Some (JStr ''2025-04-01T00:00:00''),
          Some (JStr ''2025-02-01T00:00:00'')]"
    "map (\<lambda>m. field m ''memoryType'') [mem_h, mem_f, mem_e, mem_d, mem_b]
       = [Some (JStr ''episodic''), Some (JStr ''episodic''), Some (JStr ''declarative''),
          Some (JStr ''episodic''), Some (JStr ''episodic'')]"
    "field mem_a ''createdAt'' = Some (JStr ''2025-01-01T00:00:00'')"
    "field mem_a ''memoryType'' = Some (JStr ''declarative'')"
    "field mem_a ''salience'' = Some (JNum (9 / 10))"
    "field mem_g ''memoryType'' = Some (JStr ''procedural'')"
    "field mem_c ''salience'' = Some (JNum (1 / 10))"
    "field mem_other ''userId'' = Some (JStr ''u2'')"
    by (simp_all add: mem_a_def mem_b_def mem_c_def mem_d_def mem_e_def mem_f_def mem_g_def
        mem_h_def mem_other_def demo_memory_def field_def)
  from query_memories_results [OF demo_query_memories p] demo_query_memories p st ms f
  show ?thesis
    by simp
qed

text \<open>
  Against C8 as stated, twice. \<^verbatim>\<open>memory_types=[]\<close> is given, and memories of every type
  come back: the empty list is falsy and adds no filter. And with a type name that holds
  quotes, the text the code builds is \<open>injected_text\<close>, whose filter is true of every
  document: a memory of user \<^verbatim>\<open>u2\<close> in tenant \<^verbatim>\<open>t2\<close> comes back to user \<^verbatim>\<open>u1\<close>.
\<close>

theorem query_memories_types_counterexample:
  "query_memories demo_store_reads ''u1'' ''t1'' (Some []) 0 demo_memories_world
     = (Inr [mem_h, mem_g, mem_f, mem_e, mem_d], demo_memories_world)
   \<and> field mem_g ''memoryType'' = Some (JStr ''procedural'')
   \<and> ''procedural'' \<notin> set ([] :: string list)
   \<and> memories_query_text (type_filter_text [injected_name]) = injected_text
   \<and> query_memories demo_store_reads ''u1'' ''t1'' (Some [injected_name]) 0 demo_memories_world
     = (Inr [mem_h, mem_other, mem_g, mem_f, mem_e], demo_memories_world)
   \<and> field mem_other ''userId'' = Some (JStr ''u2'')
   \<and> field mem_other ''tenantId'' = Some (JStr ''t2'')
   \<and> field mem_other ''memoryType'' = Some (JStr ''declarative'')
   \<and> ''declarative'' \<notin> set [injected_name]"
proof -
  have 1: "query_memories demo_store_reads ''u1'' ''t1'' (Some []) 0 demo_memories_world
     = (Inr [mem_h, mem_g, mem_f, mem_e, mem_d], demo_memories_world)"
    by (simp add: memory_eval_defs eval_defs)
  have 2: "memories_query_text (type_filter_text [injected_name]) = injected_text"
    by (simp add: memories_query_text_def type_filter_text_def injected_name_def
        injected_text_def)
  have 3: "\<not> list_all plain_name [injected_name]"
    by (simp add: plain_name_def injected_name_def)
  have 4: "query_memories demo_store_reads ''u1'' ''t1'' (Some [injected_name]) 0
      demo_memories_world
     = (Inr [mem_h, mem_other, mem_g, mem_f, mem_e], demo_memories_world)"
    using 2 3
    by (simp add: query_memories_def demo_store_reads_def demo_memories_world_def
        demo_memory_def memory_filter_def salience_at_least_def
        mem_a_def mem_b_def mem_c_def mem_d_def mem_e_def mem_f_def mem_g_def mem_h_def
        mem_other_def mem_stored_def memory_doc_def memory_ttl_def eval_defs)
  have 5: "field mem_g ''memoryType'' = Some (JStr ''procedural'')"
    "field mem_other ''userId'' = Some (JStr ''u2'')"
    "field mem_other ''tenantId'' = Some (JStr ''t2'')"
    "field mem_other ''memoryType'' = Some (JStr ''declarative'')"
    by (simp_all add: mem_g_def mem_other_def demo_memory_def field_def)
  have 6: "''declarative'' \<notin> set [injected_name]"
    by (simp add: injected_name_def)
  from 1 2 4 5 6 show ?thesis
    by simp
qed

end
